theory Spec2Isabelle
  imports Complex_Main
begin

section \<open>Data Sweeper: the upload loop of app.py and the dataframe calls it makes\<close>

text \<open>
  The program is one script, \<^verbatim>\<open>app.py\<close>: a loop over the uploaded files that loads each
  file into a dataframe, optionally cleans and filters it, and offers it for download.
  Every step is a call into the dataframe library, so the embedding has two layers: the
  library calls the script makes, written out as functions on an explicit table value,
  and the script itself, which threads the variables \<^verbatim>\<open>df\<close>, \<^verbatim>\<open>file\<close> and \<^verbatim>\<open>file_ext\<close>
  through the stages in the order of the source. The readers are parameters of the
  script; the CSV reader is also written out, after the script, for the properties that
  are about reading.

  Conventions. A Python \<^verbatim>\<open>str\<close> is a \<^typ>\<open>string\<close> whose characters are code points
  below 256. A float is a rational number: the rounding of float arithmetic is not part
  of the model. The row index of a dataframe is left out: no call of the script reads
  it, and the export passes \<^verbatim>\<open>index=False\<close>.
\<close>

subsection \<open>Strings: \<^verbatim>\<open>str.lower\<close>, \<^verbatim>\<open>os.path.splitext\<close>, \<^verbatim>\<open>str.replace\<close>\<close>

definition py_lower_char :: "char \<Rightarrow> char" where
  "py_lower_char c =
     (let n = (of_char c :: nat)
      in if (65 \<le> n \<and> n \<le> 90) \<or> (192 \<le> n \<and> n \<le> 222 \<and> n \<noteq> 215)
         then char_of (n + 32) else c)"

definition py_lower :: "string \<Rightarrow> string" where
  "py_lower s = map py_lower_char s"

text \<open>\<^verbatim>\<open>str.rfind\<close> of a single character: the last index, or -1.\<close>

fun rfind :: "char \<Rightarrow> string \<Rightarrow> int" where
  "rfind c [] = -1"
| "rfind c (x # xs) =
     (let r = rfind c xs in if r \<noteq> -1 then r + 1 else if x = c then 0 else -1)"

text \<open>
  \<^verbatim>\<open>posixpath.splitext\<close>: the extension starts at the last dot of the last path
  component, unless that component consists of dots up to there. The loop skips the
  leading dots and answers whether an ordinary character comes before the last dot.
\<close>

function splitext_loop :: "string \<Rightarrow> nat \<Rightarrow> nat \<Rightarrow> bool" where
  "splitext_loop p filenameIndex dotIndex =
     (if filenameIndex < dotIndex
      then (if p ! filenameIndex \<noteq> CHR ''.'' then True
            else splitext_loop p (Suc filenameIndex) dotIndex)
      else False)"
  by pat_completeness auto
termination
  by (relation "measure (\<lambda>(p, i, d). d - i)") auto

declare splitext_loop.simps [simp del]

definition splitext :: "string \<Rightarrow> string \<times> string" where
  "splitext p =
     (let sepIndex = rfind CHR ''/'' p;
          dotIndex = rfind CHR ''.'' p
      in if dotIndex > sepIndex \<and> splitext_loop p (nat (sepIndex + 1)) (nat dotIndex)
         then (take (nat dotIndex) p, drop (nat dotIndex) p)
         else (p, []))"

text \<open>\<^verbatim>\<open>s.replace(old, new)\<close>: every non-overlapping occurrence, from the left.\<close>

fun str_replace :: "string \<Rightarrow> string \<Rightarrow> string \<Rightarrow> string" where
  "str_replace old new [] = (if old = [] then new else [])"
| "str_replace old new (c # cs) =
     (if old = [] then new @ c # str_replace old new cs
      else if take (length old) (c # cs) = old
           then new @ str_replace old new (drop (length old) (c # cs))
           else c # str_replace old new cs)"

subsection \<open>Tables\<close>

text \<open>
  A column label is text or, from a spreadsheet whose header cell holds a number, an
  integer. A cell is missing (\<open>NaN\<close>) or holds a value; an \<open>object\<close> column may mix them.
\<close>

datatype label = LStr string | LInt int

datatype dtype = DObject | DInt64 | DFloat64 | DBool | DDatetime64

datatype cell = NaN | IntV int | FloatV rat | BoolV bool | StrV string | TimeV int

record column =
  cname :: label
  cdtype :: dtype
  cvalues :: "cell list"

type_synonym table = "column list"

definition nrows :: "table \<Rightarrow> nat" where
  "nrows T = (case T of [] \<Rightarrow> 0 | c # _ \<Rightarrow> length (cvalues c))"

text \<open>A dataframe is rectangular, and the loaders hand out distinct labels.\<close>

definition wf_table :: "table \<Rightarrow> bool" where
  "wf_table T = (list_all (\<lambda>c. length (cvalues c) = nrows T) T \<and> distinct (map cname T))"

text \<open>
  Cell equality as the library's hash tables see it (\<^verbatim>\<open>duplicated\<close>, \<^verbatim>\<open>unique\<close>,
  \<^verbatim>\<open>isin\<close>): a missing cell matches a missing cell, numbers and booleans compare by
  value (\<^verbatim>\<open>1 == 1.0 == True\<close>), text by content.
\<close>

datatype key = KNaN | KNum rat | KStr string | KTime int

fun hash_key :: "cell \<Rightarrow> key" where
  "hash_key NaN = KNaN"
| "hash_key (IntV n) = KNum (of_int n)"
| "hash_key (FloatV r) = KNum r"
| "hash_key (BoolV b) = KNum (if b then 1 else 0)"
| "hash_key (StrV s) = KStr s"
| "hash_key (TimeV t) = KTime t"

text \<open>Boolean-mask indexing \<^verbatim>\<open>df[mask]\<close>: the rows whose mask entry is true, in order.\<close>

fun mask_cells :: "bool list \<Rightarrow> 'a list \<Rightarrow> 'a list" where
  "mask_cells (b # bs) (x # xs) = (if b then x # mask_cells bs xs else mask_cells bs xs)"
| "mask_cells _ _ = []"

definition take_rows :: "bool list \<Rightarrow> table \<Rightarrow> table" where
  "take_rows m T = map (\<lambda>c. c\<lparr>cvalues := mask_cells m (cvalues c)\<rparr>) T"

definition rows_of :: "table \<Rightarrow> cell list list" where
  "rows_of T = map (\<lambda>i. map (\<lambda>c. cvalues c ! i) T) [0..<nrows T]"

definition select_dtypes :: "(dtype \<Rightarrow> bool) \<Rightarrow> table \<Rightarrow> table" where
  "select_dtypes incl T = filter (\<lambda>c. incl (cdtype c)) T"

definition is_object :: "dtype \<Rightarrow> bool" where
  "is_object d = (d = DObject)"

definition is_number :: "dtype \<Rightarrow> bool" where
  "is_number d = (d = DInt64 \<or> d = DFloat64)"

definition head :: "nat \<Rightarrow> table \<Rightarrow> table" where
  "head n T = map (\<lambda>c. c\<lparr>cvalues := take n (cvalues c)\<rparr>) T"

subsection \<open>The cleaning calls\<close>

text \<open>
  \<^verbatim>\<open>df.drop_duplicates(inplace=True)\<close>: \<^verbatim>\<open>duplicated\<close> scans the rows from the top and
  marks a row whose cells all match those of a row seen before.
\<close>

fun duplicated_scan :: "key list list \<Rightarrow> key list list \<Rightarrow> bool list" where
  "duplicated_scan seen [] = []"
| "duplicated_scan seen (r # rs) =
     (if r \<in> set seen then True # duplicated_scan seen rs
      else False # duplicated_scan (r # seen) rs)"

definition row_keys :: "table \<Rightarrow> key list list" where
  "row_keys T = map (map hash_key) (rows_of T)"

definition duplicated :: "table \<Rightarrow> bool list" where
  "duplicated T = duplicated_scan [] (row_keys T)"

definition drop_duplicates :: "table \<Rightarrow> table" where
  "drop_duplicates T = take_rows (map Not (duplicated T)) T"

text \<open>
  \<^verbatim>\<open>x.str.lower()\<close> on each \<open>object\<close> column. The \<^verbatim>\<open>.str\<close> accessor first infers what the
  column holds, missing cells aside, and raises \<^verbatim>\<open>AttributeError\<close> when that is only
  booleans, only numbers or only timestamps; otherwise text is lowered and every other
  cell becomes missing.
\<close>

datatype fault =
    AttributeError | KeyError | EmptyDataError | ParserError
  | DuplicateWidgetID | StreamlitAPIException | LibraryError string

definition str_accessor_ok :: "cell list \<Rightarrow> bool" where
  "str_accessor_ok xs =
     (let vs = filter (\<lambda>x. x \<noteq> NaN) xs
      in vs = [] \<or>
         \<not> (list_all (\<lambda>x. case x of BoolV _ \<Rightarrow> True | _ \<Rightarrow> False) vs \<or>
            list_all (\<lambda>x. case x of IntV _ \<Rightarrow> True | FloatV _ \<Rightarrow> True | _ \<Rightarrow> False) vs \<or>
            list_all (\<lambda>x. case x of TimeV _ \<Rightarrow> True | _ \<Rightarrow> False) vs))"

fun str_lower :: "cell \<Rightarrow> cell" where
  "str_lower (StrV s) = StrV (py_lower s)"
| "str_lower _ = NaN"

definition lowercase :: "table \<Rightarrow> fault + table" where
  "lowercase T =
     (if list_all (\<lambda>c. str_accessor_ok (cvalues c)) (select_dtypes is_object T)
      then Inr (map (\<lambda>c. if is_object (cdtype c)
                           then c\<lparr>cvalues := map str_lower (cvalues c)\<rparr> else c) T)
      else Inl AttributeError)"

text \<open>
  \<^verbatim>\<open>numeric_cols.any()\<close> is the truth value of the labels of the numeric columns: an
  empty label and the integer label 0 are false. \<^verbatim>\<open>mean\<close> skips missing cells and is
  itself missing when none is present; \<^verbatim>\<open>fillna\<close> with a missing value fills nothing.
\<close>

fun label_truthy :: "label \<Rightarrow> bool" where
  "label_truthy (LStr s) = (s \<noteq> [])"
| "label_truthy (LInt n) = (n \<noteq> 0)"

definition index_any :: "label list \<Rightarrow> bool" where
  "index_any labels = list_ex label_truthy labels"

fun num_value :: "cell \<Rightarrow> rat option" where
  "num_value (IntV n) = Some (of_int n)"
| "num_value (FloatV r) = Some r"
| "num_value _ = None"

definition present :: "cell list \<Rightarrow> rat list" where
  "present xs = List.map_filter num_value xs"

definition mean :: "cell list \<Rightarrow> rat option" where
  "mean xs = (let vs = present xs
              in if vs = [] then None else Some (sum_list vs / of_nat (length vs)))"

definition fillna :: "rat option \<Rightarrow> cell list \<Rightarrow> cell list" where
  "fillna m xs = (case m of None \<Rightarrow> xs
                  | Some v \<Rightarrow> map (\<lambda>x. if x = NaN then FloatV v else x) xs)"

definition fillna_mean :: "table \<Rightarrow> table" where
  "fillna_mean T =
     map (\<lambda>c. if is_number (cdtype c)
               then c\<lparr>cvalues := fillna (mean (cvalues c)) (cvalues c)\<rparr> else c) T"

text \<open>
  \<^verbatim>\<open>replace(r'[^A-Za-z0-9 ]+', '', regex=True)\<close> on each \<open>object\<close> column: in every text
  cell each maximal run of characters outside the class is replaced by the empty
  string; a cell that is not text is left as it is.
\<close>

definition in_class :: "char \<Rightarrow> bool" where
  "in_class c =
     (let n = (of_char c :: nat)
      in (65 \<le> n \<and> n \<le> 90) \<or> (97 \<le> n \<and> n \<le> 122) \<or> (48 \<le> n \<and> n \<le> 57) \<or> n = 32)"

function re_sub :: "string \<Rightarrow> string" where
  "re_sub [] = []"
| "re_sub (c # cs) =
     (if in_class c then c # re_sub cs
      else re_sub (dropWhile (\<lambda>x. \<not> in_class x) cs))"
  by pat_completeness auto
termination
  by (relation "measure length") (auto simp: less_Suc_eq_le length_dropWhile_le)

fun regex_replace :: "cell \<Rightarrow> cell" where
  "regex_replace (StrV s) = StrV (re_sub s)"
| "regex_replace x = x"

definition remove_special :: "table \<Rightarrow> table" where
  "remove_special T =
     map (\<lambda>c. if is_object (cdtype c)
               then c\<lparr>cvalues := map regex_replace (cvalues c)\<rparr> else c) T"

subsection \<open>The filter calls\<close>

text \<open>
  \<^verbatim>\<open>Series.unique\<close> keeps the first cell of each value, in order of appearance;
  \<^verbatim>\<open>Series.isin\<close> marks the cells that match one of the given values.
\<close>

fun unique_scan :: "key list \<Rightarrow> cell list \<Rightarrow> cell list" where
  "unique_scan seen [] = []"
| "unique_scan seen (x # xs) =
     (if hash_key x \<in> set seen then unique_scan seen xs
      else x # unique_scan (hash_key x # seen) xs)"

definition unique :: "cell list \<Rightarrow> cell list" where
  "unique xs = unique_scan [] xs"

definition isin :: "cell list \<Rightarrow> cell list \<Rightarrow> bool list" where
  "isin xs vals = map (\<lambda>x. hash_key x \<in> set (map hash_key vals)) xs"

subsection \<open>The export calls\<close>

text \<open>
  \<^verbatim>\<open>df.to_csv(buffer, index=False)\<close> hands the header and then each row to the standard
  CSV writer: fields joined by commas, a field holding a comma, a quote or a line break
  put in quotes with its quotes doubled, a row that is one empty field written as a pair
  of quotes, every row ended by a line feed. A missing cell is the empty field. The text
  of a float and of a timestamp is the library's and is a parameter.
\<close>

definition digit_char :: "nat \<Rightarrow> char" where
  "digit_char d = char_of (48 + d)"

fun str_nat :: "nat \<Rightarrow> string" where
  "str_nat n = (if n < 10 then [digit_char n] else str_nat (n div 10) @ [digit_char (n mod 10)])"

declare str_nat.simps [simp del]

definition str_int :: "int \<Rightarrow> string" where
  "str_int i = (if i < 0 then CHR ''-'' # str_nat (nat (- i)) else str_nat (nat i))"

fun label_text :: "label \<Rightarrow> string" where
  "label_text (LStr s) = s"
| "label_text (LInt n) = str_int n"

fun cell_text :: "(cell \<Rightarrow> string) \<Rightarrow> cell \<Rightarrow> string" where
  "cell_text repr NaN = []"
| "cell_text repr (IntV n) = str_int n"
| "cell_text repr (BoolV b) = (if b then ''True'' else ''False'')"
| "cell_text repr (StrV s) = s"
| "cell_text repr x = repr x"

definition needs_quote :: "string \<Rightarrow> bool" where
  "needs_quote s = list_ex (\<lambda>c. c = CHR '','' \<or> c = CHR 0x22 \<or> c = CHR 0x0A \<or> c = CHR 0x0D) s"

definition csv_field :: "string \<Rightarrow> string" where
  "csv_field s =
     (if needs_quote s
      then CHR 0x22 # concat (map (\<lambda>c. if c = CHR 0x22 then [c, c] else [c]) s) @ [CHR 0x22]
      else s)"

fun join_fields :: "string list \<Rightarrow> string" where
  "join_fields [] = []"
| "join_fields [f] = f"
| "join_fields (f # fs) = f @ CHR '','' # join_fields fs"

definition writerow :: "string list \<Rightarrow> string" where
  "writerow fs =
     (if fs = [[]] then [CHR 0x22, CHR 0x22] else join_fields (map csv_field fs)) @ [CHR 0x0A]"

definition to_csv :: "(cell \<Rightarrow> string) \<Rightarrow> table \<Rightarrow> string" where
  "to_csv repr T =
     writerow (map (\<lambda>c. label_text (cname c)) T) @
     concat (map (\<lambda>r. writerow (map (cell_text repr) r)) (rows_of T))"

subsection \<open>The script\<close>

text \<open>
  What the script shows is a list of events, one per display call, in order. The
  pictographs that open the messages of the source are left out of the texts.
\<close>

datatype event =
    EvError string
  | EvWrite string
  | EvFileSize nat
  | EvSubheader string
  | EvDataframe table
  | EvDescribe table
  | EvTable "(label \<times> nat) list"
  | EvSuccess string
  | EvWarning string
  | EvHtml string
  | EvBarChart table
  | EvDownload string string string

datatype conversion = CSV | Excel

record uploaded_file =
  fname :: string
  fsize :: nat
  fcontent :: string

text \<open>
  The library calls whose result the script only passes on: the two readers (either may
  raise), the spreadsheet writer, which stamps the file with the time of writing, the
  text of floats and timestamps, and the profiling report.
\<close>

record lib =
  read_csv :: "string \<Rightarrow> fault + table"
  read_excel :: "string \<Rightarrow> fault + table"
  to_excel :: "nat \<Rightarrow> table \<Rightarrow> string"
  cell_repr :: "cell \<Rightarrow> string"
  profile_report :: "table \<Rightarrow> string"

text \<open>
  The widget values read while one file is processed. \<open>selected_index\<close> is the option
  chosen in the select box (the first one by default), \<open>chosen\<close> the values ticked in the
  multiselect, which offers the distinct values of the column and starts with all of
  them ticked. \<open>temp_filename\<close> is the name the operating system gives the temporary
  report file and \<open>clock\<close> the time at which the export runs.
\<close>

record ui =
  show_summary :: bool
  clean_transform :: bool
  remove_duplicates_btn :: bool
  lowercase_btn :: bool
  fill_missing_btn :: bool
  remove_special_btn :: bool
  selected_index :: nat
  chosen :: "cell \<Rightarrow> bool"
  generate_report :: bool
  temp_filename :: string
  show_visualization :: bool
  conversion_type :: conversion
  convert_btn :: bool
  clock :: nat

text \<open>
  The variables of one pass of the loop body: the events so far, \<^verbatim>\<open>df\<close>, the name that
  \<^verbatim>\<open>file.name\<close> currently evaluates to, and the exception that ended the pass, if any.
\<close>

record pass =
  events :: "event list"
  df :: table
  file_name :: string
  raised :: "fault option"

definition emit :: "event list \<Rightarrow> pass \<Rightarrow> pass" where
  "emit es s = s\<lparr>events := events s @ es\<rparr>"

text \<open>Lines 50-52.\<close>

definition remove_duplicates :: "pass \<Rightarrow> pass" where
  "remove_duplicates s =
     emit [EvSuccess ''Duplicates Removed!''] (s\<lparr>df := drop_duplicates (df s)\<rparr>)"

text \<open>Lines 54-57.\<close>

definition convert_lowercase :: "pass \<Rightarrow> pass" where
  "convert_lowercase s =
     (case lowercase (df s) of
        Inl e \<Rightarrow> s\<lparr>raised := Some e\<rparr>
      | Inr T \<Rightarrow> emit [EvSuccess ''Text Columns Converted to Lowercase!''] (s\<lparr>df := T\<rparr>))"

text \<open>Lines 60-66.\<close>

definition fill_missing :: "pass \<Rightarrow> pass" where
  "fill_missing s =
     (let numeric_cols = map cname (select_dtypes is_number (df s))
      in if index_any numeric_cols
         then emit [EvSuccess ''Missing Values Filled!''] (s\<lparr>df := fillna_mean (df s)\<rparr>)
         else emit [EvWarning ''No numeric columns found for missing value filling.''] s)"

text \<open>Lines 68-71.\<close>

definition remove_special_characters :: "pass \<Rightarrow> pass" where
  "remove_special_characters s =
     emit [EvSuccess ''Special Characters Removed!''] (s\<lparr>df := remove_special (df s)\<rparr>)"

text \<open>A statement runs only while no exception has ended the pass.\<close>

definition run :: "bool \<Rightarrow> (pass \<Rightarrow> pass) \<Rightarrow> pass \<Rightarrow> pass" where
  "run cond f s = (if raised s = None \<and> cond then f s else s)"

text \<open>
  Lines 46-71: the statements of the four buttons, in the order of the source, given the
  values of the check box and the buttons.
\<close>

definition clean :: "ui \<Rightarrow> pass \<Rightarrow> pass" where
  "clean u s =
     (if clean_transform u
      then run (remove_special_btn u) remove_special_characters
             (run (fill_missing_btn u) fill_missing
               (run (lowercase_btn u) convert_lowercase
                 (run (remove_duplicates_btn u) remove_duplicates s)))
      else s)"

text \<open>
  Lines 108-127: the statements of the export, given the values of the radio and the
  button. The download carries the data, the file name and the MIME type.
\<close>

definition convert :: "lib \<Rightarrow> ui \<Rightarrow> string \<Rightarrow> pass \<Rightarrow> pass" where
  "convert L u file_ext s =
     (let s1 = emit [EvSubheader ''Convert & Download''] s
      in if convert_btn u
         then (case conversion_type u of
                 CSV \<Rightarrow>
                   emit [EvDownload (to_csv (cell_repr L) (df s1))
                           (str_replace file_ext ''.csv'' (file_name s1))
                           ''text/csv''] s1
               | Excel \<Rightarrow>
                   emit [EvDownload (to_excel L (clock u) (df s1))
                           (str_replace file_ext ''.xlsx'' (file_name s1))
                           ''application/vnd.openxmlformats-officedocument.spreadsheetml.sheet''] s1)
         else s1)"

text \<open>
  The loop body with its widgets. The framework gives every widget an identity made of
  its kind, its label and its other arguments (or its key), and raises when a widget
  with the identity of an earlier one of the same run is made. The widgets made so far
  are therefore part of the state of the run, next to the variables of the pass; they
  outlive the iteration.
\<close>

datatype widget =
    Checkbox string
  | Button string
  | Selectbox string "label list"
  | Multiselect string "cell list"
  | Radio string
  | DownloadButton string string

type_synonym session = "widget list \<times> pass"

definition st_widget :: "(pass \<Rightarrow> widget) \<Rightarrow> session \<Rightarrow> session" where
  "st_widget w ss =
     (case ss of
        (made, s) \<Rightarrow>
          if raised s \<noteq> None then (made, s)
          else if w s \<in> set made then (made, s\<lparr>raised := Some DuplicateWidgetID\<rparr>)
          else (w s # made, s))"

definition stmt :: "bool \<Rightarrow> (pass \<Rightarrow> pass) \<Rightarrow> session \<Rightarrow> session" where
  "stmt cond f ss = (case ss of (made, s) \<Rightarrow> (made, run cond f s))"

text \<open>Lines 30-43: file information, preview and summary.\<close>

definition show_info :: "uploaded_file \<Rightarrow> ui \<Rightarrow> session \<Rightarrow> session" where
  "show_info file u ss =
     stmt (show_summary u)
       (\<lambda>s. emit [EvDescribe (df s), EvWrite ''Missing Values Count:'',
                   EvTable (map (\<lambda>c. (cname c, length (filter (\<lambda>x. x = NaN) (cvalues c)))) (df s))] s)
       (st_widget (\<lambda>s. Checkbox (''Show Summary for '' @ file_name s))
         (stmt True
            (\<lambda>s. emit [EvWrite (''**File Name:** '' @ file_name s), EvFileSize (fsize file),
                        EvWrite ''**Data Preview (First 7 Rows):**'', EvDataframe (head 7 (df s)),
                        EvSubheader ''Data Summary''] s)
            ss))"

text \<open>
  Lines 46-71 with the check box and the four buttons. A button is made, and then its
  statements run if it was pressed.
\<close>

definition clean_and_transform :: "ui \<Rightarrow> session \<Rightarrow> session" where
  "clean_and_transform u ss =
     (let ss1 = st_widget (\<lambda>s. Checkbox (''Clean & Transform Data for '' @ file_name s)) ss
      in if clean_transform u
         then stmt (remove_special_btn u) remove_special_characters
                (st_widget (\<lambda>s. Button (''Remove Special Characters from '' @ file_name s))
                  (stmt (fill_missing_btn u) fill_missing
                    (st_widget (\<lambda>s. Button (''Fill Missing Values for '' @ file_name s))
                      (stmt (lowercase_btn u) convert_lowercase
                        (st_widget (\<lambda>s. Button (''Convert Text Columns to Lowercase for '' @ file_name s))
                          (stmt (remove_duplicates_btn u) remove_duplicates
                            (st_widget (\<lambda>s. Button (''Remove Duplicates from '' @ file_name s)) ss1)))))))
         else ss1)"

text \<open>
  Lines 74-78. The select box returns one of the column labels, or \<^verbatim>\<open>None\<close> when there
  is no column, and indexing with \<^verbatim>\<open>None\<close> raises \<^verbatim>\<open>KeyError\<close>.

  The multiselect is given the distinct values of the column both as its options and as
  its default. Before anything else it looks every default value up among the options
  with Python's \<^verbatim>\<open>in\<close>, which compares by identity and then by \<^verbatim>\<open>==\<close>, and raises when one
  is not found. The distinct values of a \<open>float64\<close> column are a float array: its missing
  value is a new float object each time it is taken out of the array, and it is not equal
  to itself, so it is not found. The distinct values of an \<open>object\<close> column are the
  objects of the column, where the missing value is found by identity. Otherwise the
  multiselect returns the ticked options.
\<close>

definition selectbox :: "'a list \<Rightarrow> nat \<Rightarrow> 'a option" where
  "selectbox options i =
     (if options = [] then None
      else Some (options ! (if i < length options then i else 0)))"

definition multiselect :: "dtype \<Rightarrow> cell list \<Rightarrow> (cell \<Rightarrow> bool) \<Rightarrow> fault + cell list" where
  "multiselect d options ticked =
     (if d = DFloat64 \<and> NaN \<in> set options then Inl StreamlitAPIException
      else Inr (filter ticked options))"

definition filter_rows :: "table \<Rightarrow> column \<Rightarrow> (cell \<Rightarrow> bool) \<Rightarrow> fault + table" where
  "filter_rows T selected_col ticked =
     (let unique_vals = unique (cvalues selected_col)
      in case multiselect (cdtype selected_col) unique_vals ticked of
           Inl e \<Rightarrow> Inl e
         | Inr selected_vals \<Rightarrow> Inr (take_rows (isin (cvalues selected_col) selected_vals) T))"

definition filter_data :: "ui \<Rightarrow> session \<Rightarrow> session" where
  "filter_data u ss =
     (let ss1 = st_widget (\<lambda>s. Selectbox (''Select Column to Filter '' @ file_name s) (map cname (df s)))
                  (stmt True (emit [EvSubheader ''Filter Data'']) ss)
      in case ss1 of
           (made, s) \<Rightarrow>
             if raised s \<noteq> None then ss1
             else (case selectbox (df s) (selected_index u) of
                     None \<Rightarrow> (made, s\<lparr>raised := Some KeyError\<rparr>)
                   | Some selected_col \<Rightarrow>
                       (case filter_rows (df s) selected_col (chosen u) of
                          Inl e \<Rightarrow> (made, s\<lparr>raised := Some e\<rparr>)
                        | Inr T \<Rightarrow>
                            stmt True (\<lambda>s. s\<lparr>df := T\<rparr>)
                              (st_widget
                                 (\<lambda>s. Multiselect (''Choose values from '' @ label_text (cname selected_col))
                                        (unique (cvalues selected_col)))
                                 ss1))))"

text \<open>
  Lines 83-95. Reading the report back with \<^verbatim>\<open>with open(temp_filename) as file\<close> binds
  \<^verbatim>\<open>file\<close> anew, so from here on \<^verbatim>\<open>file.name\<close> is the name of the temporary file.
\<close>

definition report :: "lib \<Rightarrow> ui \<Rightarrow> session \<Rightarrow> session" where
  "report L u ss =
     stmt (generate_report u)
       (\<lambda>s. emit [EvHtml (profile_report L (df s))] (s\<lparr>file_name := temp_filename u\<rparr>))
       (st_widget (\<lambda>s. Checkbox (''Generate AI Report for '' @ file_name s))
         (stmt True (emit [EvSubheader ''AI-Powered Data Report'']) ss))"

text \<open>Lines 98-104.\<close>

definition visualize :: "ui \<Rightarrow> session \<Rightarrow> session" where
  "visualize u ss =
     stmt (show_visualization u)
       (\<lambda>s. let numeric_cols = select_dtypes is_number (df s)
             in if length numeric_cols > 1
                then emit [EvBarChart (take 2 numeric_cols)] s
                else emit [EvWarning ''Not enough numeric columns to generate a bar chart.''] s)
       (st_widget (\<lambda>s. Checkbox (''Show Visualization for '' @ file_name s))
         (stmt True (emit [EvSubheader ''Data Visualizations'']) ss))"

text \<open>
  Lines 108-127 with the radio, whose key is \<^verbatim>\<open>file.name\<close>, the button, whose label is the
  same for every file, and the download button.
\<close>

definition download :: "lib \<Rightarrow> ui \<Rightarrow> string \<Rightarrow> pass \<Rightarrow> string \<times> string \<times> string" where
  "download L u file_ext s =
     (case conversion_type u of
        CSV \<Rightarrow> (to_csv (cell_repr L) (df s), str_replace file_ext ''.csv'' (file_name s), ''text/csv'')
      | Excel \<Rightarrow> (to_excel L (clock u) (df s), str_replace file_ext ''.xlsx'' (file_name s),
                  ''application/vnd.openxmlformats-officedocument.spreadsheetml.sheet''))"

definition convert_and_download :: "lib \<Rightarrow> ui \<Rightarrow> string \<Rightarrow> session \<Rightarrow> session" where
  "convert_and_download L u file_ext ss =
     (let ss1 = st_widget (\<lambda>s. Button ''Convert'')
                  (st_widget (\<lambda>s. Radio (file_name s))
                    (stmt True (emit [EvSubheader ''Convert & Download'']) ss))
      in if convert_btn u
         then stmt True
                (\<lambda>s. case download L u file_ext s of
                        (data, name, mime) \<Rightarrow> emit [EvDownload data name mime] s)
                (st_widget
                   (\<lambda>s. case download L u file_ext s of
                           (data, name, mime) \<Rightarrow> DownloadButton name mime)
                   ss1)
         else ss1)"

text \<open>
  Lines 20-28: the dispatch on the lowered extension. \<open>None\<close> is the last branch, where
  no dataframe is made.
\<close>

definition load :: "lib \<Rightarrow> uploaded_file \<Rightarrow> string \<Rightarrow> (fault + table) option" where
  "load L file file_ext =
     (if file_ext = ''.csv'' then Some (read_csv L (fcontent file))
      else if file_ext = ''.xlsx'' then Some (read_excel L (fcontent file))
      else None)"

text \<open>
  One iteration of the loop, from the widgets made before it to those made after it.
  \<open>Skipped\<close> is the \<^verbatim>\<open>continue\<close> of line 28, \<open>Aborted\<close> an exception that nothing catches,
  \<open>Finished\<close> the end of the body with the final \<^verbatim>\<open>df\<close>.
\<close>

datatype outcome =
    Skipped "event list"
  | Aborted "event list" fault
  | Finished "event list" table

definition body :: "lib \<Rightarrow> ui \<Rightarrow> uploaded_file \<Rightarrow> string \<Rightarrow> widget list \<Rightarrow> table \<Rightarrow> session" where
  "body L u file file_ext made T =
     convert_and_download L u file_ext
       (visualize u
         (report L u
           (filter_data u
             (clean_and_transform u
               (show_info file u
                 (made, \<lparr>events = [], df = T, file_name = fname file, raised = None\<rparr>))))))"

definition process_file :: "lib \<Rightarrow> ui \<Rightarrow> uploaded_file \<Rightarrow> widget list \<Rightarrow> outcome \<times> widget list" where
  "process_file L u file made =
     (let file_ext = py_lower (snd (splitext (fname file)))
      in case load L file file_ext of
           None \<Rightarrow> (Skipped [EvError (''Unsupported file format: '' @ file_ext)], made)
         | Some (Inl e) \<Rightarrow> (Aborted [] e, made)
         | Some (Inr T) \<Rightarrow>
             (case body L u file file_ext made T of
                (made', s) \<Rightarrow>
                  (case raised s of
                     None \<Rightarrow> (Finished (events s) (df s), made')
                   | Some e \<Rightarrow> (Aborted (events s) e, made'))))"

text \<open>
  Lines 18-19 and 129: the loop over the uploads, each with the widget values read
  during its iteration. An uncaught exception ends the script. The result is what was
  shown, the exception if any, and the widgets made.
\<close>

fun upload_loop ::
  "lib \<Rightarrow> widget list \<Rightarrow> (uploaded_file \<times> ui) list \<Rightarrow> event list \<times> fault option \<times> widget list" where
  "upload_loop L made [] = ([], None, made)"
| "upload_loop L made ((file, u) # rest) =
     (case process_file L u file made of
        (Skipped es, made') \<Rightarrow>
          (case upload_loop L made' rest of (es', r) \<Rightarrow> (es @ es', r))
      | (Finished es T, made') \<Rightarrow>
          (case upload_loop L made' rest of (es', r) \<Rightarrow> (es @ es', r))
      | (Aborted es e, made') \<Rightarrow> (es, Some e, made'))"

definition app :: "lib \<Rightarrow> (uploaded_file \<times> ui) list \<Rightarrow> event list \<times> fault option" where
  "app L uploaded_files =
     (case upload_loop L [] uploaded_files of
        (es, None, made) \<Rightarrow> (es @ [EvSuccess ''All Files Processed!''], None)
      | (es, Some e, made) \<Rightarrow> (es, Some e))"

subsection \<open>The CSV reader\<close>

text \<open>
  \<^verbatim>\<open>pd.read_csv(file)\<close> with its defaults, on text that is already decoded. The reader is
  the library's, not the repository's; it is written out here as far as the properties
  below need it, after the library's tokenizer and type inference: the tokenizer as the
  state machine it is, one character at a time; the header row as the labels; each
  column inferred as integer, float, boolean or \<open>object\<close>, in this order, with the
  library's markers of a missing value. The result is \<open>None\<close> where the input leaves the
  part written out here (a label that occurs twice, a first data line longer than the
  header, an integer outside 64 bits, an infinity); \<open>Some (Inl e)\<close> where the library
  raises; \<open>Some (Inr T)\<close> where it returns the table \<open>T\<close>.
\<close>

datatype tstate =
    START_RECORD | WHITESPACE_LINE | START_FIELD | IN_FIELD
  | IN_QUOTED_FIELD | QUOTE_IN_QUOTED_FIELD | EAT_CRNL | EAT_CRNL_NOP

text \<open>
  The tokenizer's variables: the state, the characters of the field so far, the fields of
  the line so far, and the lines completed.
\<close>

record tokenizer =
  state :: tstate
  word :: string
  words :: "string list"
  lines :: "string list list"

definition PUSH_CHAR :: "char \<Rightarrow> tokenizer \<Rightarrow> tokenizer" where
  "PUSH_CHAR c t = t\<lparr>word := word t @ [c]\<rparr>"

definition END_FIELD :: "tokenizer \<Rightarrow> tokenizer" where
  "END_FIELD t = t\<lparr>word := [], words := words t @ [word t]\<rparr>"

definition END_LINE :: "tokenizer \<Rightarrow> tokenizer" where
  "END_LINE t = t\<lparr>state := START_RECORD, word := [], words := [], lines := lines t @ [words t]\<rparr>"

definition is_blank :: "char \<Rightarrow> bool" where
  "is_blank c = (c = CHR '' '' \<or> c = CHR 0x09)"

definition start_field :: "char \<Rightarrow> tokenizer \<Rightarrow> tokenizer" where
  "start_field c t =
     (if c = CHR 0x0A then END_LINE (END_FIELD t)
      else if c = CHR 0x0D then (END_FIELD t)\<lparr>state := EAT_CRNL\<rparr>
      else if c = CHR 0x22 then t\<lparr>state := IN_QUOTED_FIELD\<rparr>
      else if c = CHR '','' then (END_FIELD t)\<lparr>state := START_FIELD\<rparr>
      else (PUSH_CHAR c t)\<lparr>state := IN_FIELD\<rparr>)"

definition in_field :: "char \<Rightarrow> tokenizer \<Rightarrow> tokenizer" where
  "in_field c t =
     (if c = CHR 0x0A then END_LINE (END_FIELD t)
      else if c = CHR 0x0D then (END_FIELD t)\<lparr>state := EAT_CRNL\<rparr>
      else if c = CHR '','' then (END_FIELD t)\<lparr>state := START_FIELD\<rparr>
      else (PUSH_CHAR c t)\<lparr>state := IN_FIELD\<rparr>)"

text \<open>
  A line that is empty or holds only blanks is skipped. The blanks seen at the start of a
  line are kept in \<open>word\<close>: when another character follows, the line is read again as
  an ordinary line, which makes them the start of its first field.
\<close>

definition start_record :: "char \<Rightarrow> tokenizer \<Rightarrow> tokenizer" where
  "start_record c t =
     (if c = CHR 0x0A then t
      else if c = CHR 0x0D then t\<lparr>state := EAT_CRNL_NOP\<rparr>
      else if is_blank c then (PUSH_CHAR c t)\<lparr>state := WHITESPACE_LINE\<rparr>
      else start_field c t)"

definition tokenize_char :: "tokenizer \<Rightarrow> char \<Rightarrow> tokenizer" where
  "tokenize_char t c =
     (case state t of
        START_RECORD \<Rightarrow> start_record c t
      | WHITESPACE_LINE \<Rightarrow>
          (if c = CHR 0x0A then t\<lparr>state := START_RECORD, word := []\<rparr>
           else if c = CHR 0x0D then t\<lparr>state := EAT_CRNL_NOP, word := []\<rparr>
           else if is_blank c then PUSH_CHAR c t
           else in_field c t)
      | START_FIELD \<Rightarrow> start_field c t
      | IN_FIELD \<Rightarrow> in_field c t
      | IN_QUOTED_FIELD \<Rightarrow>
          (if c = CHR 0x22 then t\<lparr>state := QUOTE_IN_QUOTED_FIELD\<rparr> else PUSH_CHAR c t)
      | QUOTE_IN_QUOTED_FIELD \<Rightarrow>
          (if c = CHR 0x0A then END_LINE (END_FIELD t)
           else if c = CHR 0x0D then (END_FIELD t)\<lparr>state := EAT_CRNL\<rparr>
           else if c = CHR 0x22 then (PUSH_CHAR c t)\<lparr>state := IN_QUOTED_FIELD\<rparr>
           else if c = CHR '','' then (END_FIELD t)\<lparr>state := START_FIELD\<rparr>
           else (PUSH_CHAR c t)\<lparr>state := IN_FIELD\<rparr>)
      | EAT_CRNL \<Rightarrow>
          (if c = CHR 0x0A then END_LINE t
           else if c = CHR '','' then (END_FIELD (END_LINE t))\<lparr>state := START_FIELD\<rparr>
           else start_record c (END_LINE t))
      | EAT_CRNL_NOP \<Rightarrow>
          (if c = CHR 0x0A \<or> c = CHR '','' then t\<lparr>state := START_RECORD\<rparr>
           else start_record c (t\<lparr>state := START_RECORD\<rparr>)))"

text \<open>At the end of the input an open line is closed; an open quote is an error.\<close>

definition handle_eof :: "tokenizer \<Rightarrow> string list list option" where
  "handle_eof t =
     (case state t of
        START_RECORD \<Rightarrow> Some (lines t)
      | WHITESPACE_LINE \<Rightarrow> Some (lines t)
      | EAT_CRNL_NOP \<Rightarrow> Some (lines t)
      | IN_QUOTED_FIELD \<Rightarrow> None
      | EAT_CRNL \<Rightarrow> Some (lines (END_LINE t))
      | _ \<Rightarrow> Some (lines (END_LINE (END_FIELD t))))"

definition tokenize :: "string \<Rightarrow> string list list option" where
  "tokenize s =
     handle_eof (foldl tokenize_char \<lparr>state = START_RECORD, word = [], words = [], lines = []\<rparr> s)"

text \<open>
  The check at the end of each line: from the second data line on, a line with more fields
  than the line before is an error; a data line with fewer is filled up with empty
  fields. \<open>width\<close> is the number of fields of the line before.
\<close>

fun end_lines :: "nat \<Rightarrow> string list list \<Rightarrow> string list list option" where
  "end_lines width [] = Some []"
| "end_lines width (l # ls) =
     (if length l > width then None
      else map_option ((#) (l @ replicate (width - length l) [])) (end_lines width ls))"

text \<open>The library's markers of a missing value.\<close>

definition na_values :: "string list" where
  "na_values = ['''', ''#N/A'', ''#N/A N/A'', ''#NA'', ''-1.#IND'', ''-1.#QNAN'', ''-NaN'', ''-nan'',
                ''1.#IND'', ''1.#QNAN'', ''<NA>'', ''N/A'', ''NA'', ''NULL'', ''NaN'', ''None'',
                ''n/a'', ''nan'', ''null'']"

definition is_na :: "string \<Rightarrow> bool" where
  "is_na s = (s \<in> set na_values)"

text \<open>
  Numbers. Both parsers skip white space at either end and take an optional sign; an
  integer is digits, a float is digits with an optional point and an optional exponent,
  with a digit before or after the point and a digit in the exponent.
\<close>

definition is_space :: "char \<Rightarrow> bool" where
  "is_space c = (c = CHR '' '' \<or> (9 \<le> (of_char c :: nat) \<and> (of_char c :: nat) \<le> 13))"

definition is_digit :: "char \<Rightarrow> bool" where
  "is_digit c = (48 \<le> (of_char c :: nat) \<and> (of_char c :: nat) \<le> 57)"

definition digits_value :: "string \<Rightarrow> nat" where
  "digits_value ds = foldl (\<lambda>a c. 10 * a + (of_char c - 48)) 0 ds"

definition take_sign :: "string \<Rightarrow> bool \<times> string" where
  "take_sign s =
     (case s of
        c # cs \<Rightarrow> (if c = CHR ''-'' then (True, cs) else if c = CHR ''+'' then (False, cs) else (False, s))
      | [] \<Rightarrow> (False, s))"

definition str_to_int :: "string \<Rightarrow> int option" where
  "str_to_int s =
     (let (neg, s1) = take_sign (dropWhile is_space s);
          ds = takeWhile is_digit s1;
          rest = dropWhile is_space (dropWhile is_digit s1)
      in if ds = [] \<or> rest \<noteq> [] then None
         else Some (if neg then - int (digits_value ds) else int (digits_value ds)))"

definition in_int64 :: "int \<Rightarrow> bool" where
  "in_int64 i = (- (2 ^ 63) \<le> i \<and> i < 2 ^ 63)"

definition take_exponent :: "string \<Rightarrow> (int \<times> string) option" where
  "take_exponent s =
     (case s of
        c # cs \<Rightarrow>
          (if c = CHR ''e'' \<or> c = CHR ''E''
           then (let (neg, s1) = take_sign cs; ds = takeWhile is_digit s1
                 in if ds = [] then None
                    else Some (if neg then - int (digits_value ds) else int (digits_value ds),
                               dropWhile is_digit s1))
           else Some (0, s))
      | [] \<Rightarrow> Some (0, s))"

definition str_to_double :: "string \<Rightarrow> rat option" where
  "str_to_double s =
     (let (neg, s1) = take_sign (dropWhile is_space s);
          ip = takeWhile is_digit s1;
          s2 = dropWhile is_digit s1;
          fp = (case s2 of c # cs \<Rightarrow> if c = CHR ''.'' then takeWhile is_digit cs else [] | [] \<Rightarrow> []);
          s3 = (case s2 of c # cs \<Rightarrow> if c = CHR ''.'' then dropWhile is_digit cs else s2 | [] \<Rightarrow> s2)
      in if ip = [] \<and> fp = [] then None
         else (case take_exponent s3 of
                 None \<Rightarrow> None
               | Some (e, s4) \<Rightarrow>
                   if dropWhile is_space s4 \<noteq> [] then None
                   else (let m = (of_nat (digits_value (ip @ fp)) :: rat);
                             v = m * (if e - int (length fp) \<ge> 0
                                      then 10 ^ nat (e - int (length fp))
                                      else 1 / 10 ^ nat (int (length fp) - e))
                         in Some (if neg then - v else v))))"

definition is_inf :: "string \<Rightarrow> bool" where
  "is_inf s = (py_lower s \<in> set [''inf'', ''+inf'', ''-inf'', ''infinity'', ''+infinity'', ''-infinity''])"

definition to_boolean :: "string \<Rightarrow> bool option" where
  "to_boolean s =
     (if py_lower s = ''true'' then Some True
      else if py_lower s = ''false'' then Some False else None)"

text \<open>
  The type of a column from its tokens. A missing cell turns an integer column into a
  float column and a boolean column into an \<open>object\<close> column; a column of missing cells
  only is a float column.
\<close>

definition convert_tokens :: "string list \<Rightarrow> (dtype \<times> cell list) option" where
  "convert_tokens toks =
     (let vals = filter (\<lambda>s. \<not> is_na s) toks
      in if list_all (\<lambda>s. str_to_int s \<noteq> None) vals
         then (if list_all (\<lambda>s. in_int64 (the (str_to_int s))) vals
               then (if vals = toks
                     then Some (DInt64, map (\<lambda>s. IntV (the (str_to_int s))) toks)
                     else Some (DFloat64,
                            map (\<lambda>s. if is_na s then NaN else FloatV (of_int (the (str_to_int s)))) toks))
               else None)
         else if list_all (\<lambda>s. str_to_double s \<noteq> None \<or> is_inf s) vals
         then (if list_ex is_inf vals then None
               else Some (DFloat64,
                      map (\<lambda>s. if is_na s then NaN else FloatV (the (str_to_double s))) toks))
         else if list_all (\<lambda>s. to_boolean s \<noteq> None) vals
         then (if vals = toks
               then Some (DBool, map (\<lambda>s. BoolV (the (to_boolean s))) toks)
               else Some (DObject, map (\<lambda>s. if is_na s then NaN else BoolV (the (to_boolean s))) toks))
         else Some (DObject, map (\<lambda>s. if is_na s then NaN else StrV s) toks))"

text \<open>
  The header: an empty name becomes \<^verbatim>\<open>Unnamed: i\<close>. The columns: field \<open>j\<close> of every data
  line, under label \<open>j\<close>. With no data line every column is an empty \<open>object\<close> column.
\<close>

definition header_names :: "string list \<Rightarrow> string list" where
  "header_names hs =
     map (\<lambda>(i, h). if h = [] then ''Unnamed: '' @ str_nat i else h) (zip [0..<length hs] hs)"

fun all_some :: "'a option list \<Rightarrow> 'a list option" where
  "all_some [] = Some []"
| "all_some (x # xs) =
     (case x of None \<Rightarrow> None | Some v \<Rightarrow> map_option ((#) v) (all_some xs))"

definition make_columns :: "string list \<Rightarrow> string list list \<Rightarrow> table option" where
  "make_columns names rows =
     all_some (map (\<lambda>(j, n).
                  if rows = [] then Some \<lparr>cname = LStr n, cdtype = DObject, cvalues = []\<rparr>
                  else map_option (\<lambda>(d, vs). \<lparr>cname = LStr n, cdtype = d, cvalues = vs\<rparr>)
                         (convert_tokens (map (\<lambda>r. r ! j) rows)))
                (zip [0..<length names] names))"

definition pd_read_csv :: "string \<Rightarrow> (fault + table) option" where
  "pd_read_csv s =
     (case tokenize s of
        None \<Rightarrow> Some (Inl ParserError)
      | Some [] \<Rightarrow> Some (Inl EmptyDataError)
      | Some (header # rows) \<Rightarrow>
          (let names = header_names header
           in if \<not> distinct names then None
              else if rows \<noteq> [] \<and> length (hd rows) > length header then None
              else (case end_lines (length header) rows of
                      None \<Rightarrow> Some (Inl ParserError)
                    | Some rows' \<Rightarrow> map_option Inr (make_columns names rows'))))"

subsection \<open>Notions used to state the properties\<close>

text \<open>The labels, types and lengths of the columns, in order.\<close>

definition shape :: "table \<Rightarrow> (label \<times> dtype \<times> nat) list" where
  "shape T = map (\<lambda>c. (cname c, cdtype c, length (cvalues c))) T"

text \<open>
  One part of a run after another: the second part starts from the widgets the first has
  made, and runs unless the first was aborted.
\<close>

definition followed_by ::
  "event list \<times> fault option \<times> widget list \<Rightarrow>
   (widget list \<Rightarrow> event list \<times> fault option \<times> widget list) \<Rightarrow>
   event list \<times> fault option \<times> widget list" where
  "followed_by a b =
     (case a of
        (es, Some e, made) \<Rightarrow> (es, Some e, made)
      | (es, None, made) \<Rightarrow> (case b made of (es', r) \<Rightarrow> (es @ es', r)))"

text \<open>Several exports in succession over the same pass.\<close>

definition exports :: "lib \<Rightarrow> ui list \<Rightarrow> string \<Rightarrow> pass \<Rightarrow> pass" where
  "exports L us file_ext s = foldl (\<lambda>s u. convert L u file_ext s) s us"









text \<open>
  Sample inputs. \<open>people\<close> is the table of the text
  \<^verbatim>\<open>name,age\nAlice,30\nBob,\nAlice,30\n\<close>: a text column and, because an age is missing,
  a float column.
\<close>

definition people :: table where
  "people =
     [\<lparr>cname = LStr ''name'', cdtype = DObject,
       cvalues = [StrV ''Alice'', StrV ''Bob'', StrV ''Alice'']\<rparr>,
      \<lparr>cname = LStr ''age'', cdtype = DFloat64,
       cvalues = [FloatV 30, NaN, FloatV 30]\<rparr>]"

definition remarks :: table where
  "remarks =
     [\<lparr>cname = LStr ''note'', cdtype = DObject,
       cvalues = [StrV ''B.o-b #1!'', NaN]\<rparr>,
      \<lparr>cname = LStr ''n'', cdtype = DInt64, cvalues = [IntV 4, IntV 5]\<rparr>]"

definition idle :: ui where
  "idle = \<lparr>show_summary = False, clean_transform = False, remove_duplicates_btn = False,
            lowercase_btn = False, fill_missing_btn = False, remove_special_btn = False,
            selected_index = 0, chosen = (\<lambda>_. True), generate_report = False,
            temp_filename = ''/tmp/tmpab12.html'', show_visualization = False,
            conversion_type = CSV, convert_btn = False, clock = 0\<rparr>"

text \<open>
  A library for the examples: its CSV reader is the reader written out above, its
  spreadsheet reader returns a fixed table, and the calls the script only passes on
  return nothing.
\<close>

definition silent :: lib where
  "silent = \<lparr>read_csv = (\<lambda>s. case pd_read_csv s of Some r \<Rightarrow> r
                                | None \<Rightarrow> Inl (LibraryError ''not covered'')),
             read_excel = (\<lambda>_. Inr remarks),
             to_excel = (\<lambda>_ _. []), cell_repr = (\<lambda>_. []), profile_report = (\<lambda>_. [])\<rparr>"

definition people_csv :: uploaded_file where
  "people_csv = \<lparr>fname = ''people.csv'', fsize = 35,
                  fcontent = ''name,age\<newline>Alice,30\<newline>Bob,\<newline>Alice,30\<newline>''\<rparr>"

definition notes_txt :: uploaded_file where
  "notes_txt = \<lparr>fname = ''notes.txt'', fsize = 5, fcontent = ''hello''\<rparr>"

definition cities_csv :: uploaded_file where
  "cities_csv = \<lparr>fname = ''cities.csv'', fsize = 10, fcontent = ''city\<newline>Oslo\<newline>''\<rparr>"

definition start :: "table \<Rightarrow> pass" where
  "start T = \<lparr>events = [], df = T, file_name = ''people.csv'', raised = None\<rparr>"

definition staff :: table where
  "staff =
     [\<lparr>cname = LStr ''name'', cdtype = DObject,
       cvalues = [StrV ''Alice'', NaN, StrV ''Bob 2'']\<rparr>,
      \<lparr>cname = LStr ''n'', cdtype = DInt64, cvalues = [IntV 4, IntV (- 15), IntV 0]\<rparr>,
      \<lparr>cname = LStr ''ok'', cdtype = DBool, cvalues = [BoolV True, BoolV False, BoolV True]\<rparr>]"




section \<open>Properties\<close>

subsection \<open>Row masks\<close>

lemma mask_cells_all: "length m = length xs \<Longrightarrow> list_all id m \<Longrightarrow> mask_cells m xs = xs"
  by (induction m xs rule: mask_cells.induct) auto

lemma mask_cells_map: "mask_cells m (map f xs) = map f (mask_cells m xs)"
  by (induction m xs rule: mask_cells.induct) auto

lemma mask_cells_nths:
  "length m = length xs \<Longrightarrow>
   mask_cells m xs = map ((!) xs) (filter ((!) m) [0..<length xs])"
proof (induction m xs rule: mask_cells.induct)
  case (1 b bs x xs)
  have upt: "[0..<length (x # xs)] = 0 # map Suc [0..<length xs]"
    by (simp add: upt_conv_Cons map_Suc_upt del: upt_Suc)
  have flt: "\<And>b'. filter ((!) (b' # bs)) (map Suc [0..<length xs])
                  = map Suc (filter ((!) bs) [0..<length xs])"
    by (simp add: filter_map comp_def)
  have mp: "map ((!) (x # xs)) (map Suc (filter ((!) bs) [0..<length xs]))
            = map ((!) xs) (filter ((!) bs) [0..<length xs])"
    by (simp add: comp_def)
  from 1 have len: "length bs = length xs" by simp
  show ?case
  proof (cases b)
    case True
    with 1 len show ?thesis unfolding upt by (simp add: flt mp del: upt_Suc)
  next
    case False
    with 1 len show ?thesis unfolding upt by (simp add: flt mp del: upt_Suc)
  qed
qed simp_all

lemma map_nth_upt: "map (\<lambda>r. f (xs ! r)) [0..<length xs] = map f xs"
  by (rule nth_equalityI) simp_all

lemma nrows_take_rows:
  "wf_table T \<Longrightarrow> length m = nrows T \<Longrightarrow> T \<noteq> [] \<Longrightarrow>
   nrows (take_rows m T) = length (filter ((!) m) [0..<nrows T])"
  by (cases T) (auto simp: nrows_def take_rows_def wf_table_def mask_cells_nths simp del: upt_Suc)

lemma rows_of_take_rows:
  assumes "wf_table T" "length m = nrows T"
  shows "rows_of (take_rows m T) = mask_cells m (rows_of T)"
proof (cases "T = []")
  case True
  then show ?thesis by (simp add: rows_of_def take_rows_def nrows_def)
next
  case False
  let ?idx = "filter ((!) m) [0..<nrows T]"
  have len: "\<And>c. c \<in> set T \<Longrightarrow> length (cvalues c) = nrows T"
    using assms(1) by (simp add: wf_table_def list_all_iff)
  have col: "\<And>c. c \<in> set T \<Longrightarrow> mask_cells m (cvalues c) = map ((!) (cvalues c)) ?idx"
    using len assms(2) by (simp add: mask_cells_nths)
  have "rows_of (take_rows m T)
        = map (\<lambda>r. map (\<lambda>c. cvalues c ! (?idx ! r)) T) [0..<length ?idx]"
    unfolding rows_of_def nrows_take_rows [OF assms False]
    by (rule map_cong [OF refl]) (simp add: take_rows_def comp_def col)
  also have "\<dots> = map (\<lambda>i. map (\<lambda>c. cvalues c ! i) T) ?idx"
    by (rule map_nth_upt)
  also have "\<dots> = mask_cells m (rows_of T)"
    using assms(2)
    by (subst mask_cells_nths) (auto simp: rows_of_def simp del: upt_Suc)
  finally show ?thesis .
qed

lemma length_mask_cells_cong:
  "length m = length xs \<Longrightarrow> length xs = length ys \<Longrightarrow>
   length (mask_cells m xs) = length (mask_cells m ys)"
  by (simp add: mask_cells_nths del: upt_Suc)

lemma take_rows_all:
  assumes "\<forall>c \<in> set T. length (cvalues c) = length m" "list_all id m"
  shows "take_rows m T = T"
proof -
  have "\<And>c. c \<in> set T \<Longrightarrow> c\<lparr>cvalues := mask_cells m (cvalues c)\<rparr> = c"
    using assms by (simp add: mask_cells_all)
  then show ?thesis
    unfolding take_rows_def by (simp add: map_idI)
qed

lemma wf_people: "wf_table people"
  by (simp add: wf_table_def people_def nrows_def)

lemma rows_people: "rows_of people = [[StrV ''Alice'', FloatV 30], [StrV ''Bob'', NaN], [StrV ''Alice'', FloatV 30]]"
  by (simp add: rows_of_def people_def nrows_def upt_conv_Cons)

lemma dd_people: "drop_duplicates people =
     [\<lparr>cname = LStr ''name'', cdtype = DObject, cvalues = [StrV ''Alice'', StrV ''Bob'']\<rparr>,
      \<lparr>cname = LStr ''age'', cdtype = DFloat64, cvalues = [FloatV 30, NaN]\<rparr>]"
  by (simp add: drop_duplicates_def duplicated_def row_keys_def rows_people take_rows_def)
     (simp add: people_def)

subsection \<open>The widgets of one pass\<close>

text \<open>
  Started with no widget made, the cleaning block and the export of one file make no
  widget twice, so they do what their statements do: \<open>clean\<close> and \<open>convert\<close>.
\<close>

lemma snd_stmt: "snd (stmt cond f ss) = run cond f (snd ss)"
  by (cases ss) (simp add: stmt_def)

lemma fst_stmt: "fst (stmt cond f ss) = fst ss"
  by (cases ss) (simp add: stmt_def)

lemma snd_st_widget:
  "w (snd ss) \<notin> set (fst ss) \<Longrightarrow> snd (st_widget w ss) = snd ss"
  by (cases ss) (simp add: st_widget_def)

lemma fst_st_widget:
  "set (fst (st_widget w ss)) \<subseteq> insert (w (snd ss)) (set (fst ss))"
  by (cases ss) (auto simp: st_widget_def)

lemma file_name_run_handlers:
  "file_name (run c remove_duplicates s) = file_name s"
  "file_name (run c convert_lowercase s) = file_name s"
  "file_name (run c fill_missing s) = file_name s"
  "file_name (run c remove_special_characters s) = file_name s"
  by (simp_all add: run_def remove_duplicates_def convert_lowercase_def fill_missing_def
        remove_special_characters_def emit_def Let_def split: sum.splits)

lemma clean_and_transform_clean:
  "snd (clean_and_transform u ([], s)) = clean u s"
proof -
  let ?n = "file_name s"
  define a0 where "a0 = st_widget (\<lambda>s. Checkbox (''Clean & Transform Data for '' @ file_name s)) ([], s)"
  define a1 where "a1 = st_widget (\<lambda>s. Button (''Remove Duplicates from '' @ file_name s)) a0"
  define b1 where "b1 = stmt (remove_duplicates_btn u) remove_duplicates a1"
  define a2 where "a2 = st_widget (\<lambda>s. Button (''Convert Text Columns to Lowercase for '' @ file_name s)) b1"
  define b2 where "b2 = stmt (lowercase_btn u) convert_lowercase a2"
  define a3 where "a3 = st_widget (\<lambda>s. Button (''Fill Missing Values for '' @ file_name s)) b2"
  define b3 where "b3 = stmt (fill_missing_btn u) fill_missing a3"
  define a4 where "a4 = st_widget (\<lambda>s. Button (''Remove Special Characters from '' @ file_name s)) b3"
  define b4 where "b4 = stmt (remove_special_btn u) remove_special_characters a4"
  have s0: "snd a0 = s" and m0: "set (fst a0) \<subseteq> {Checkbox (''Clean & Transform Data for '' @ ?n)}"
    unfolding a0_def by (simp_all add: st_widget_def)
  have s1: "snd a1 = s"
    unfolding a1_def using m0 s0 by (subst snd_st_widget) auto
  have m1: "set (fst a1) \<subseteq> {Checkbox (''Clean & Transform Data for '' @ ?n),
                              Button (''Remove Duplicates from '' @ ?n)}"
    unfolding a1_def using fst_st_widget [of "\<lambda>s. Button (''Remove Duplicates from '' @ file_name s)" a0] m0 s0
    by auto
  have t1: "snd b1 = run (remove_duplicates_btn u) remove_duplicates s" and n1: "fst b1 = fst a1"
    unfolding b1_def by (simp_all add: snd_stmt fst_stmt s1)
  have f1: "file_name (snd b1) = ?n"
    unfolding t1 by (rule file_name_run_handlers)
  have s2: "snd a2 = snd b1"
    unfolding a2_def using m1 n1 f1 by (subst snd_st_widget) auto
  have m2: "set (fst a2) \<subseteq> {Checkbox (''Clean & Transform Data for '' @ ?n),
                              Button (''Remove Duplicates from '' @ ?n),
                              Button (''Convert Text Columns to Lowercase for '' @ ?n)}"
    unfolding a2_def
    using fst_st_widget [of "\<lambda>s. Button (''Convert Text Columns to Lowercase for '' @ file_name s)" b1] m1 n1 f1
    by auto
  have t2: "snd b2 = run (lowercase_btn u) convert_lowercase (snd b1)" and n2: "fst b2 = fst a2"
    unfolding b2_def by (simp_all add: snd_stmt fst_stmt s2)
  have f2: "file_name (snd b2) = ?n"
    unfolding t2 using f1 by (simp add: file_name_run_handlers)
  have s3: "snd a3 = snd b2"
    unfolding a3_def using m2 n2 f2 by (subst snd_st_widget) auto
  have m3: "set (fst a3) \<subseteq> {Checkbox (''Clean & Transform Data for '' @ ?n),
                              Button (''Remove Duplicates from '' @ ?n),
                              Button (''Convert Text Columns to Lowercase for '' @ ?n),
                              Button (''Fill Missing Values for '' @ ?n)}"
    unfolding a3_def
    using fst_st_widget [of "\<lambda>s. Button (''Fill Missing Values for '' @ file_name s)" b2] m2 n2 f2
    by auto
  have t3: "snd b3 = run (fill_missing_btn u) fill_missing (snd b2)" and n3: "fst b3 = fst a3"
    unfolding b3_def by (simp_all add: snd_stmt fst_stmt s3)
  have f3: "file_name (snd b3) = ?n"
    unfolding t3 using f2 by (simp add: file_name_run_handlers)
  have s4: "snd a4 = snd b3"
    unfolding a4_def using m3 n3 f3 by (subst snd_st_widget) auto
  have t4: "snd b4 = run (remove_special_btn u) remove_special_characters (snd b3)"
    unfolding b4_def by (simp add: snd_stmt s4)
  have pressed: "snd b4 = run (remove_special_btn u) remove_special_characters
             (run (fill_missing_btn u) fill_missing
               (run (lowercase_btn u) convert_lowercase
                 (run (remove_duplicates_btn u) remove_duplicates s)))"
    unfolding t4 t3 t2 t1 ..
  have "clean_and_transform u ([], s) = (if clean_transform u then b4 else a0)"
    unfolding clean_and_transform_def Let_def b4_def a4_def b3_def a3_def b2_def a2_def b1_def
      a1_def a0_def ..
  then show ?thesis
    unfolding clean_def using pressed s0 by simp
qed

lemma convert_and_download_convert:
  assumes "raised s = None"
  shows "snd (convert_and_download L u file_ext ([], s)) = convert L u file_ext s"
proof (cases "conversion_type u")
  case CSV
  then show ?thesis
    using assms
    by (simp add: convert_and_download_def convert_def download_def stmt_def st_widget_def
        run_def emit_def Let_def)
next
  case Excel
  then show ?thesis
    using assms
    by (simp add: convert_and_download_def convert_def download_def stmt_def st_widget_def
        run_def emit_def Let_def)
qed

subsection \<open>Unsupported uploads\<close>

lemma upload_loop_append:
  "upload_loop L made (xs @ ys) =
     followed_by (upload_loop L made xs) (\<lambda>made'. upload_loop L made' ys)"
proof (induction xs arbitrary: made)
  case Nil
  then show ?case by (simp add: followed_by_def)
next
  case (Cons x xs)
  obtain f u where x: "x = (f, u)" by (cases x)
  obtain r made' where p: "process_file L u f made = (r, made')"
    by (cases "process_file L u f made")
  show ?case
    unfolding x using Cons.IH [of made']
    by (cases r) (auto simp: p followed_by_def split: prod.splits option.splits)
qed

text \<open>
  The button of line 110 has the same label \<^verbatim>\<open>Convert\<close> for every file and no key. The
  first supported file makes it; the second one that reaches line 110 makes it again, and
  the run ends there with the framework's exception.
\<close>

lemma first_file_pass:
  "upload_loop silent [] [(people_csv, idle)] =
     ([EvWrite ''**File Name:** people.csv'', EvFileSize 35,
       EvWrite ''**Data Preview (First 7 Rows):**'', EvDataframe people,
       EvSubheader ''Data Summary'', EvSubheader ''Filter Data'',
       EvSubheader ''AI-Powered Data Report'', EvSubheader ''Data Visualizations'',
       EvSubheader ''Convert & Download''],
      None,
      [Button ''Convert'', Radio ''people.csv'', Checkbox ''Show Visualization for people.csv'',
       Checkbox ''Generate AI Report for people.csv'',
       Multiselect ''Choose values from name'' [StrV ''Alice'', StrV ''Bob''],
       Selectbox ''Select Column to Filter people.csv'' [LStr ''name'', LStr ''age''],
       Checkbox ''Clean & Transform Data for people.csv'',
       Checkbox ''Show Summary for people.csv''])"
  by code_simp

lemma later_file_pass:
  "upload_loop silent
     [Button ''Convert'', Radio ''people.csv'', Checkbox ''Show Visualization for people.csv'',
      Checkbox ''Generate AI Report for people.csv'',
      Multiselect ''Choose values from name'' [StrV ''Alice'', StrV ''Bob''],
      Selectbox ''Select Column to Filter people.csv'' [LStr ''name'', LStr ''age''],
      Checkbox ''Clean & Transform Data for people.csv'',
      Checkbox ''Show Summary for people.csv'']
     [(cities_csv, idle)] =
     ([EvWrite ''**File Name:** cities.csv'', EvFileSize 10,
       EvWrite ''**Data Preview (First 7 Rows):**'',
       EvDataframe [\<lparr>cname = LStr ''city'', cdtype = DObject, cvalues = [StrV ''Oslo'']\<rparr>],
       EvSubheader ''Data Summary'', EvSubheader ''Filter Data'',
       EvSubheader ''AI-Powered Data Report'', EvSubheader ''Data Visualizations'',
       EvSubheader ''Convert & Download''],
      Some DuplicateWidgetID,
      [Radio ''cities.csv'', Checkbox ''Show Visualization for cities.csv'',
       Checkbox ''Generate AI Report for cities.csv'',
       Multiselect ''Choose values from city'' [StrV ''Oslo''],
       Selectbox ''Select Column to Filter cities.csv'' [LStr ''city''],
       Checkbox ''Clean & Transform Data for cities.csv'',
       Checkbox ''Show Summary for cities.csv'', Button ''Convert'',
       Radio ''people.csv'', Checkbox ''Show Visualization for people.csv'',
       Checkbox ''Generate AI Report for people.csv'',
       Multiselect ''Choose values from name'' [StrV ''Alice'', StrV ''Bob''],
       Selectbox ''Select Column to Filter people.csv'' [LStr ''name'', LStr ''age''],
       Checkbox ''Clean & Transform Data for people.csv'',
       Checkbox ''Show Summary for people.csv''])"
  by code_simp

lemma second_supported_file_aborts:
  "upload_loop silent [] [(people_csv, idle), (cities_csv, idle)] =
     ([EvWrite ''**File Name:** people.csv'', EvFileSize 35,
       EvWrite ''**Data Preview (First 7 Rows):**'', EvDataframe people,
       EvSubheader ''Data Summary'', EvSubheader ''Filter Data'',
       EvSubheader ''AI-Powered Data Report'', EvSubheader ''Data Visualizations'',
       EvSubheader ''Convert & Download'',
       EvWrite ''**File Name:** cities.csv'', EvFileSize 10,
       EvWrite ''**Data Preview (First 7 Rows):**'',
       EvDataframe [\<lparr>cname = LStr ''city'', cdtype = DObject, cvalues = [StrV ''Oslo'']\<rparr>],
       EvSubheader ''Data Summary'', EvSubheader ''Filter Data'',
       EvSubheader ''AI-Powered Data Report'', EvSubheader ''Data Visualizations'',
       EvSubheader ''Convert & Download''],
      Some DuplicateWidgetID,
      [Radio ''cities.csv'', Checkbox ''Show Visualization for cities.csv'',
       Checkbox ''Generate AI Report for cities.csv'',
       Multiselect ''Choose values from city'' [StrV ''Oslo''],
       Selectbox ''Select Column to Filter cities.csv'' [LStr ''city''],
       Checkbox ''Clean & Transform Data for cities.csv'',
       Checkbox ''Show Summary for cities.csv'', Button ''Convert'',
       Radio ''people.csv'', Checkbox ''Show Visualization for people.csv'',
       Checkbox ''Generate AI Report for people.csv'',
       Multiselect ''Choose values from name'' [StrV ''Alice'', StrV ''Bob''],
       Selectbox ''Select Column to Filter people.csv'' [LStr ''name'', LStr ''age''],
       Checkbox ''Clean & Transform Data for people.csv'',
       Checkbox ''Show Summary for people.csv''])"
  by code_simp

text \<open>
  Claim C1. A file whose lowered extension is neither \<^verbatim>\<open>.csv\<close> nor \<^verbatim>\<open>.xlsx\<close> reaches
  the last branch of the dispatch: no dataframe is made, the only thing the pass does
  is show the error with the extension, no widget is made, and the loop goes on. A run
  over uploads that contain such a file, from any widgets made before, is the run over
  the other uploads, in the same order, with that one error shown where the file stood:
  the files after it start from the same widgets and so do the same, and the run ends
  with the same widgets and, if it is aborted, with the same exception in the same file.
\<close>

theorem unsupported_format_skipped:
  assumes "py_lower (snd (splitext (fname file))) \<noteq> ''.csv''"
    and "py_lower (snd (splitext (fname file))) \<noteq> ''.xlsx''"
  shows "load L file (py_lower (snd (splitext (fname file)))) = None \<and>
         process_file L u file made =
           (Skipped [EvError (''Unsupported file format: '' @ py_lower (snd (splitext (fname file))))],
            made) \<and>
         upload_loop L made (before @ (file, u) # after) =
           followed_by (upload_loop L made before)
             (\<lambda>made'. followed_by
                ([EvError (''Unsupported file format: '' @ py_lower (snd (splitext (fname file))))],
                 None, made')
                (\<lambda>made'. upload_loop L made' after)) \<and>
         upload_loop L made (before @ after) =
           followed_by (upload_loop L made before) (\<lambda>made'. upload_loop L made' after) \<and>
         snd (upload_loop L made (before @ (file, u) # after)) =
           snd (upload_loop L made (before @ after))"
proof -
  let ?err = "[EvError (''Unsupported file format: '' @ py_lower (snd (splitext (fname file))))]"
  have ld: "load L file (py_lower (snd (splitext (fname file)))) = None"
    using assms by (simp add: load_def)
  have pf: "process_file L u file made' = (Skipped ?err, made')" for made'
    by (simp add: process_file_def Let_def ld)
  have one: "upload_loop L made' ((file, u) # after) =
          followed_by (?err, None, made') (\<lambda>made'. upload_loop L made' after)" for made'
    by (simp add: pf followed_by_def split: prod.splits)
  have with_file: "upload_loop L made (before @ (file, u) # after) =
           followed_by (upload_loop L made before)
             (\<lambda>made'. followed_by (?err, None, made') (\<lambda>made'. upload_loop L made' after))"
    by (simp only: upload_loop_append [of L made before "(file, u) # after"] one)
  have without: "upload_loop L made (before @ after) =
           followed_by (upload_loop L made before) (\<lambda>made'. upload_loop L made' after)"
    by (rule upload_loop_append)
  have same: "snd (upload_loop L made (before @ (file, u) # after)) =
           snd (upload_loop L made (before @ after))"
    unfolding with_file without
    by (auto simp: followed_by_def split: prod.splits option.splits)
  from ld pf [of made] with_file without same show ?thesis
    by (intro conjI)
qed

text \<open>
  An unsupported file between two supported ones: the error is shown between them, and
  the run ends at the button of the second supported file as it does without it.
\<close>

theorem unsupported_format_skipped_witness:
  "py_lower (snd (splitext (fname notes_txt))) = ''.txt'' \<and>
   process_file silent idle notes_txt [] =
     (Skipped [EvError ''Unsupported file format: .txt''], []) \<and>
   upload_loop silent [] [(people_csv, idle), (notes_txt, idle), (cities_csv, idle)] =
     ([EvWrite ''**File Name:** people.csv'', EvFileSize 35,
       EvWrite ''**Data Preview (First 7 Rows):**'', EvDataframe people,
       EvSubheader ''Data Summary'', EvSubheader ''Filter Data'',
       EvSubheader ''AI-Powered Data Report'', EvSubheader ''Data Visualizations'',
       EvSubheader ''Convert & Download'',
       EvError ''Unsupported file format: .txt'',
       EvWrite ''**File Name:** cities.csv'', EvFileSize 10,
       EvWrite ''**Data Preview (First 7 Rows):**'',
       EvDataframe [\<lparr>cname = LStr ''city'', cdtype = DObject, cvalues = [StrV ''Oslo'']\<rparr>],
       EvSubheader ''Data Summary'', EvSubheader ''Filter Data'',
       EvSubheader ''AI-Powered Data Report'', EvSubheader ''Data Visualizations'',
       EvSubheader ''Convert & Download''],
      snd (upload_loop silent [] [(people_csv, idle), (cities_csv, idle)])) \<and>
   fst (snd (upload_loop silent [] [(people_csv, idle), (cities_csv, idle)])) =
     Some DuplicateWidgetID"
proof -
  have ext: "py_lower (snd (splitext (fname notes_txt))) = ''.txt''"
    by code_simp
  have h1: "py_lower (snd (splitext (fname notes_txt))) \<noteq> ''.csv''"
    by (simp add: ext)
  have h2: "py_lower (snd (splitext (fname notes_txt))) \<noteq> ''.xlsx''"
    by (simp add: ext)
  note skipped = unsupported_format_skipped [OF h1 h2, of silent idle "[]"
      "[(people_csv, idle)]" "[(cities_csv, idle)]"]
  from skipped [THEN conjunct2, THEN conjunct1]
  have a: "process_file silent idle notes_txt [] =
     (Skipped [EvError ''Unsupported file format: .txt''], [])"
    by (simp add: ext del: upload_loop.simps)
  from skipped [THEN conjunct2, THEN conjunct2, THEN conjunct1]
  have b: "upload_loop silent [] [(people_csv, idle), (notes_txt, idle), (cities_csv, idle)] =
     followed_by (upload_loop silent [] [(people_csv, idle)])
       (\<lambda>made'. followed_by ([EvError ''Unsupported file format: .txt''], None, made')
                  (\<lambda>made'. upload_loop silent made' [(cities_csv, idle)]))"
    by (simp add: ext del: upload_loop.simps)
  from skipped [THEN conjunct2, THEN conjunct2, THEN conjunct2, THEN conjunct2]
  have c: "snd (upload_loop silent [] [(people_csv, idle), (notes_txt, idle), (cities_csv, idle)])
      = snd (upload_loop silent [] [(people_csv, idle), (cities_csv, idle)])"
    by (simp del: upload_loop.simps)
  have d: "fst (upload_loop silent [] [(people_csv, idle), (notes_txt, idle), (cities_csv, idle)]) =
      [EvWrite ''**File Name:** people.csv'', EvFileSize 35,
       EvWrite ''**Data Preview (First 7 Rows):**'', EvDataframe people,
       EvSubheader ''Data Summary'', EvSubheader ''Filter Data'',
       EvSubheader ''AI-Powered Data Report'', EvSubheader ''Data Visualizations'',
       EvSubheader ''Convert & Download'',
       EvError ''Unsupported file format: .txt'',
       EvWrite ''**File Name:** cities.csv'', EvFileSize 10,
       EvWrite ''**Data Preview (First 7 Rows):**'',
       EvDataframe [\<lparr>cname = LStr ''city'', cdtype = DObject, cvalues = [StrV ''Oslo'']\<rparr>],
       EvSubheader ''Data Summary'', EvSubheader ''Filter Data'',
       EvSubheader ''AI-Powered Data Report'', EvSubheader ''Data Visualizations'',
       EvSubheader ''Convert & Download'']"
    unfolding b first_file_pass
    by (simp add: followed_by_def later_file_pass del: upload_loop.simps)
  have e: "fst (snd (upload_loop silent [] [(people_csv, idle), (cities_csv, idle)])) =
     Some DuplicateWidgetID"
    unfolding second_supported_file_aborts by simp
  have "upload_loop silent [] [(people_csv, idle), (notes_txt, idle), (cities_csv, idle)] =
      (fst (upload_loop silent [] [(people_csv, idle), (notes_txt, idle), (cities_csv, idle)]),
       snd (upload_loop silent [] [(people_csv, idle), (cities_csv, idle)]))"
    unfolding c [symmetric] by simp
  then have f: "upload_loop silent [] [(people_csv, idle), (notes_txt, idle), (cities_csv, idle)] =
     ([EvWrite ''**File Name:** people.csv'', EvFileSize 35,
       EvWrite ''**Data Preview (First 7 Rows):**'', EvDataframe people,
       EvSubheader ''Data Summary'', EvSubheader ''Filter Data'',
       EvSubheader ''AI-Powered Data Report'', EvSubheader ''Data Visualizations'',
       EvSubheader ''Convert & Download'',
       EvError ''Unsupported file format: .txt'',
       EvWrite ''**File Name:** cities.csv'', EvFileSize 10,
       EvWrite ''**Data Preview (First 7 Rows):**'',
       EvDataframe [\<lparr>cname = LStr ''city'', cdtype = DObject, cvalues = [StrV ''Oslo'']\<rparr>],
       EvSubheader ''Data Summary'', EvSubheader ''Filter Data'',
       EvSubheader ''AI-Powered Data Report'', EvSubheader ''Data Visualizations'',
       EvSubheader ''Convert & Download''],
      snd (upload_loop silent [] [(people_csv, idle), (cities_csv, idle)]))"
    unfolding d .
  from ext a f e show ?thesis
    by (intro conjI)
qed

subsection \<open>The scenario of the spec\<close>

text \<open>
  Claim C2. The reader turns the text \<^verbatim>\<open>name,age\nAlice,30\nBob,\nAlice,30\n\<close> into the
  table \<open>people\<close>. Removing duplicates and then filling missing values leaves two
  rows, Alice with 30 and Bob with 30: the second Alice row is gone, and Bob's age is the
  mean of the one age that is present after that. Both steps report success, and the
  cleaning block with these two buttons pressed does exactly this.
\<close>

theorem scenario_dedup_then_fill:
  "pd_read_csv ''name,age\<newline>Alice,30\<newline>Bob,\<newline>Alice,30\<newline>'' = Some (Inr people) \<and>
   fill_missing (remove_duplicates (start people)) =
     \<lparr>events = [EvSuccess ''Duplicates Removed!'', EvSuccess ''Missing Values Filled!''],
      df = [\<lparr>cname = LStr ''name'', cdtype = DObject, cvalues = [StrV ''Alice'', StrV ''Bob'']\<rparr>,
            \<lparr>cname = LStr ''age'', cdtype = DFloat64, cvalues = [FloatV 30, FloatV 30]\<rparr>],
      file_name = ''people.csv'', raised = None\<rparr> \<and>
   clean (idle\<lparr>clean_transform := True, remove_duplicates_btn := True, fill_missing_btn := True\<rparr>)
     (start people) = fill_missing (remove_duplicates (start people))"
  by code_simp

text \<open>
  The same through the whole pass for an upload \<^verbatim>\<open>people.csv\<close> with the two buttons
  pressed and the filter left at the first column and all its values.
\<close>

lemma scenario_whole_pass:
  "process_file silent
     (idle\<lparr>clean_transform := True, remove_duplicates_btn := True, fill_missing_btn := True\<rparr>)
     \<lparr>fname = ''people.csv'', fsize = 35,
      fcontent = ''name,age\<newline>Alice,30\<newline>Bob,\<newline>Alice,30\<newline>''\<rparr> []
   = (Finished
       [EvWrite ''**File Name:** people.csv'', EvFileSize 35,
        EvWrite ''**Data Preview (First 7 Rows):**'', EvDataframe people,
        EvSubheader ''Data Summary'',
        EvSuccess ''Duplicates Removed!'', EvSuccess ''Missing Values Filled!'',
        EvSubheader ''Filter Data'', EvSubheader ''AI-Powered Data Report'',
        EvSubheader ''Data Visualizations'', EvSubheader ''Convert & Download'']
       [\<lparr>cname = LStr ''name'', cdtype = DObject, cvalues = [StrV ''Alice'', StrV ''Bob'']\<rparr>,
        \<lparr>cname = LStr ''age'', cdtype = DFloat64, cvalues = [FloatV 30, FloatV 30]\<rparr>],
      [Button ''Convert'', Radio ''people.csv'',
       Checkbox ''Show Visualization for people.csv'',
       Checkbox ''Generate AI Report for people.csv'',
       Multiselect ''Choose values from name'' [StrV ''Alice'', StrV ''Bob''],
       Selectbox ''Select Column to Filter people.csv'' [LStr ''name'', LStr ''age''],
       Button ''Remove Special Characters from people.csv'',
       Button ''Fill Missing Values for people.csv'',
       Button ''Convert Text Columns to Lowercase for people.csv'',
       Button ''Remove Duplicates from people.csv'',
       Checkbox ''Clean & Transform Data for people.csv'',
       Checkbox ''Show Summary for people.csv''])"
  by code_simp

subsection \<open>Special characters\<close>

lemma in_class_chars:
  "in_class c = (c \<in> set ''ABCDEFGHIJKLMNOPQRSTUVWXYZabcdefghijklmnopqrstuvwxyz0123456789 '')"
proof -
  let ?ns = "[65..<91] @ [97..<123] @ [48..<58] @ [32::nat]"
  have a: "in_class c = ((of_char c :: nat) \<in> set ?ns)"
    unfolding in_class_def Let_def set_append set_upt by auto
  have b: "map char_of ?ns = ''ABCDEFGHIJKLMNOPQRSTUVWXYZabcdefghijklmnopqrstuvwxyz0123456789 ''"
    by code_simp
  have small: "\<And>n. n \<in> set ?ns \<Longrightarrow> n < 256"
    unfolding set_append set_upt by auto
  have c: "((of_char c :: nat) \<in> set ?ns) = (c \<in> set (map char_of ?ns))"
  proof
    assume "(of_char c :: nat) \<in> set ?ns"
    then have "char_of (of_char c :: nat) \<in> char_of ` set ?ns"
      by (rule imageI)
    then show "c \<in> set (map char_of ?ns)"
      by (simp only: char_of_char set_map)
  next
    assume "c \<in> set (map char_of ?ns)"
    then obtain n where n: "n \<in> set ?ns" and cn: "c = char_of n"
      unfolding set_map by blast
    from small [OF n] have "of_char (char_of n :: char) = n"
      by (simp only: of_char_of mod_less)
    with n cn show "(of_char c :: nat) \<in> set ?ns"
      by (simp only:)
  qed
  show ?thesis
    unfolding a c b ..
qed

lemma re_sub_filter: "re_sub s = filter in_class s"
proof (induction s rule: re_sub.induct)
  case 1
  then show ?case by simp
next
  case (2 c cs)
  show ?case
  proof (cases "in_class c")
    case True
    with 2 show ?thesis by simp
  next
    case False
    have "filter in_class cs = filter in_class (dropWhile (\<lambda>x. \<not> in_class x) cs)"
      by (induction cs) auto
    with False 2 show ?thesis by simp
  qed
qed

text \<open>
  Claim C3. Removing special characters rewrites the text cells of the \<open>object\<close>
  columns and nothing else: each text cell keeps exactly its letters, digits and
  spaces, in order, so afterwards every text cell of every text column consists of
  characters of \<^verbatim>\<open>[A-Za-z0-9 ]\<close> only.
\<close>

theorem remove_special_only_class:
  "remove_special T =
     map (\<lambda>c. if cdtype c = DObject
               then c\<lparr>cvalues := map (\<lambda>x. case x of StrV s \<Rightarrow> StrV (filter in_class s) | _ \<Rightarrow> x)
                                       (cvalues c)\<rparr>
               else c) T
   \<and> (\<forall>c \<in> set (remove_special T). cdtype c = DObject \<longrightarrow>
        (\<forall>s. StrV s \<in> set (cvalues c) \<longrightarrow>
           set s \<subseteq> set ''ABCDEFGHIJKLMNOPQRSTUVWXYZabcdefghijklmnopqrstuvwxyz0123456789 ''))"
proof -
  have cell: "\<And>x. regex_replace x = (case x of StrV s \<Rightarrow> StrV (filter in_class s) | _ \<Rightarrow> x)"
    by (simp add: re_sub_filter split: cell.split)
  have eq: "remove_special T =
     map (\<lambda>c. if cdtype c = DObject
               then c\<lparr>cvalues := map (\<lambda>x. case x of StrV s \<Rightarrow> StrV (filter in_class s) | _ \<Rightarrow> x)
                                       (cvalues c)\<rparr>
               else c) T"
    by (simp add: remove_special_def is_object_def cell)
  have cls: "set ''ABCDEFGHIJKLMNOPQRSTUVWXYZabcdefghijklmnopqrstuvwxyz0123456789 '' = Collect in_class"
    by (rule set_eqI) (simp only: mem_Collect_eq in_class_chars)
  have "\<And>c s. c \<in> set (remove_special T) \<Longrightarrow> cdtype c = DObject \<Longrightarrow> StrV s \<in> set (cvalues c)
          \<Longrightarrow> set s \<subseteq> Collect in_class"
    unfolding eq by (auto split: if_splits cell.splits)
  then have "\<forall>c \<in> set (remove_special T). cdtype c = DObject \<longrightarrow>
        (\<forall>s. StrV s \<in> set (cvalues c) \<longrightarrow> set s \<subseteq> Collect in_class)"
    by blast
  then show ?thesis
    unfolding cls using eq by (rule conjI [rotated])
qed

theorem remove_special_only_class_witness:
  "remove_special remarks ! 0 \<in> set (remove_special remarks) \<and>
   cdtype (remove_special remarks ! 0) = DObject \<and>
   StrV ''Bob 1'' \<in> set (cvalues (remove_special remarks ! 0)) \<and>
   set ''Bob 1'' \<subseteq> set ''ABCDEFGHIJKLMNOPQRSTUVWXYZabcdefghijklmnopqrstuvwxyz0123456789 ''"
proof -
  have r: "re_sub ''B.o-b #1!'' = ''Bob 1''"
    by code_simp
  have ev: "remove_special remarks =
     [\<lparr>cname = LStr ''note'', cdtype = DObject, cvalues = [StrV ''Bob 1'', NaN]\<rparr>,
      \<lparr>cname = LStr ''n'', cdtype = DInt64, cvalues = [IntV 4, IntV 5]\<rparr>]"
    by (simp add: remove_special_def remarks_def is_object_def r del: re_sub.simps)
  have a: "remove_special remarks ! 0 \<in> set (remove_special remarks)"
    and b: "cdtype (remove_special remarks ! 0) = DObject"
    and c: "StrV ''Bob 1'' \<in> set (cvalues (remove_special remarks ! 0))"
    unfolding ev by simp_all
  from remove_special_only_class [of remarks] a b c
  have "set ''Bob 1'' \<subseteq> set ''ABCDEFGHIJKLMNOPQRSTUVWXYZabcdefghijklmnopqrstuvwxyz0123456789 ''"
    by blast
  with a b c show ?thesis by (intro conjI)
qed

subsection \<open>Filtering on every value\<close>

lemma unique_scan_keys:
  "x \<in> set xs \<Longrightarrow> hash_key x \<in> set seen \<union> hash_key ` set (unique_scan seen xs)"
proof (induction xs arbitrary: seen)
  case Nil
  then show ?case by simp
next
  case (Cons y ys)
  show ?case
  proof (cases "x = y")
    case True
    then show ?thesis by auto
  next
    case False
    with Cons.prems have "x \<in> set ys" by simp
    from Cons.IH [OF this, of seen] Cons.IH [OF this, of "hash_key y # seen"]
    show ?thesis by auto
  qed
qed

lemma unique_scan_subset:
  "set (unique_scan seen xs) \<subseteq> set xs"
proof (induction xs arbitrary: seen)
  case Nil
  then show ?case by simp
next
  case (Cons y ys)
  from Cons.IH [of seen] Cons.IH [of "hash_key y # seen"]
  show ?case by auto
qed

text \<open>
  Claim C4. The claim fails on the code. The multiselect is made with every distinct
  value of the column as its default, and for a \<open>float64\<close> column with a missing cell
  that call raises: the missing value is not found among the options. For the table of
  the text \<^verbatim>\<open>name,age\nAlice,30\nBob,\nAlice,30\n\<close> and the column \<^verbatim>\<open>age\<close> chosen in the
  select box, the pass ends at line 77 with the framework's exception instead of going
  on with the table unchanged.
\<close>

theorem filter_on_missing_float_raises:
  "filter_rows people (people ! 1) (chosen idle) = Inl StreamlitAPIException \<and>
   process_file silent (idle\<lparr>selected_index := 1\<rparr>) people_csv [] =
     (Aborted
        [EvWrite ''**File Name:** people.csv'', EvFileSize 35,
         EvWrite ''**Data Preview (First 7 Rows):**'', EvDataframe people,
         EvSubheader ''Data Summary'', EvSubheader ''Filter Data'']
        StreamlitAPIException,
      [Selectbox ''Select Column to Filter people.csv'' [LStr ''name'', LStr ''age''],
       Checkbox ''Clean & Transform Data for people.csv'',
       Checkbox ''Show Summary for people.csv''])"
  by code_simp

text \<open>
  Where the call does not raise, that is for a column that is not a \<open>float64\<close> column or
  has no missing cell, filtering with every distinct value ticked gives the table back
  unchanged.
\<close>

lemma filter_rows_all_values:
  assumes "wf_table T" "selected_col \<in> set T"
    and "\<forall>v \<in> set (unique (cvalues selected_col)). ticked v"
    and "cdtype selected_col \<noteq> DFloat64 \<or> NaN \<notin> set (cvalues selected_col)"
  shows "filter_rows T selected_col ticked = Inr T"
proof -
  have "cdtype selected_col \<noteq> DFloat64 \<or> NaN \<notin> set (unique (cvalues selected_col))"
    using assms(4) unique_scan_subset [of "[]" "cvalues selected_col"]
    by (auto simp: unique_def)
  then have sel: "multiselect (cdtype selected_col) (unique (cvalues selected_col)) ticked
      = Inr (unique (cvalues selected_col))"
    unfolding multiselect_def using assms(3) by (auto simp: filter_id_conv)
  have "list_all id (isin (cvalues selected_col) (unique (cvalues selected_col)))"
    using unique_scan_keys [of _ "cvalues selected_col" "[]"]
    by (auto simp: isin_def unique_def list_all_iff)
  moreover have "\<forall>c \<in> set T. length (cvalues c)
        = length (isin (cvalues selected_col) (unique (cvalues selected_col)))"
    using assms(1,2) by (simp add: wf_table_def list_all_iff isin_def)
  ultimately have "take_rows (isin (cvalues selected_col) (unique (cvalues selected_col))) T = T"
    by (intro take_rows_all)
  then show ?thesis
    unfolding filter_rows_def Let_def sel by simp
qed

subsection \<open>Filling missing values\<close>

text \<open>
  Claim C5. The claim fails on the code: whether the handler fills or warns is decided
  by the truth value of the labels of the numeric columns, not by whether there are
  any. A table read from a spreadsheet whose only numeric column has the number 0 in
  its header cell has a numeric column with a missing entry, and the handler warns that
  no numeric columns were found and fills nothing.
\<close>

theorem fill_missing_label_zero_warns:
  "fill_missing \<lparr>events = [],
                 df = [\<lparr>cname = LInt 0, cdtype = DFloat64, cvalues = [FloatV 1, NaN]\<rparr>],
                 file_name = ''book.xlsx'', raised = None\<rparr>
   = \<lparr>events = [EvWarning ''No numeric columns found for missing value filling.''],
      df = [\<lparr>cname = LInt 0, cdtype = DFloat64, cvalues = [FloatV 1, NaN]\<rparr>],
      file_name = ''book.xlsx'', raised = None\<rparr>"
  by (simp add: fill_missing_def select_dtypes_def is_number_def index_any_def emit_def)

text \<open>The same column under a text label is filled with its mean.\<close>

lemma fill_missing_named_column_fills:
  "fill_missing \<lparr>events = [],
                 df = [\<lparr>cname = LStr ''x'', cdtype = DFloat64, cvalues = [FloatV 1, NaN]\<rparr>],
                 file_name = ''book.xlsx'', raised = None\<rparr>
   = \<lparr>events = [EvSuccess ''Missing Values Filled!''],
      df = [\<lparr>cname = LStr ''x'', cdtype = DFloat64, cvalues = [FloatV 1, FloatV 1]\<rparr>],
      file_name = ''book.xlsx'', raised = None\<rparr>"
  by (simp add: fill_missing_def select_dtypes_def is_number_def index_any_def emit_def
      fillna_mean_def fillna_def mean_def present_def List.map_filter_simps)

subsection \<open>Removing duplicates\<close>

lemma length_duplicated_scan: "length (duplicated_scan seen rs) = length rs"
  by (induction rs arbitrary: seen) auto

lemma duplicated_scan_nth:
  "i < length rs \<Longrightarrow>
   duplicated_scan seen rs ! i = (rs ! i \<in> set seen \<or> (\<exists>j<i. rs ! j = rs ! i))"
proof (induction rs arbitrary: seen i)
  case Nil
  then show ?case by simp
next
  case (Cons r rs)
  show ?case
  proof (cases i)
    case 0
    then show ?thesis by simp
  next
    case (Suc k)
    with Cons.prems have k: "k < length rs" by simp
    have ex: "(\<exists>j<Suc k. (r # rs) ! j = rs ! k) = (r = rs ! k \<or> (\<exists>j<k. rs ! j = rs ! k))"
      by (auto simp: less_Suc_eq_0_disj)
    show ?thesis
      using Cons.IH [OF k] Suc ex by auto
  qed
qed

lemma duplicated_scan_idem:
  "duplicated_scan seen (mask_cells (map Not (duplicated_scan seen rs)) rs)
   = replicate (length (mask_cells (map Not (duplicated_scan seen rs)) rs)) False"
  by (induction rs arbitrary: seen) auto

lemma length_rows_of: "length (rows_of T) = nrows T"
  by (simp add: rows_of_def)

lemma length_row_keys: "length (row_keys T) = nrows T"
  by (simp add: row_keys_def length_rows_of)

lemma length_duplicated: "length (duplicated T) = nrows T"
  by (simp add: duplicated_def length_duplicated_scan length_row_keys)

lemma row_keys_take_rows:
  "wf_table T \<Longrightarrow> length m = nrows T \<Longrightarrow> row_keys (take_rows m T) = mask_cells m (row_keys T)"
  by (simp add: row_keys_def rows_of_take_rows mask_cells_map)

text \<open>
  Claim C6. Removing duplicates twice is removing them once, and the rows that remain
  are, in their order, exactly the rows of the table that match no earlier row. Rows
  match as the library compares them: cell by cell, a missing cell matching a missing
  cell and numbers compared by value.
\<close>

theorem drop_duplicates_first_idempotent:
  assumes "wf_table T"
  shows "drop_duplicates (drop_duplicates T) = drop_duplicates T \<and>
         rows_of (drop_duplicates T) =
           map ((!) (rows_of T))
             (filter (\<lambda>i. \<not> (\<exists>j<i. row_keys T ! j = row_keys T ! i)) [0..<nrows T])"
proof
  let ?m = "map Not (duplicated T)"
  let ?K = "row_keys T"
  have lm: "length ?m = nrows T"
    by (simp add: length_duplicated)
  have keys: "row_keys (drop_duplicates T) = mask_cells ?m ?K"
    unfolding drop_duplicates_def using assms lm by (rule row_keys_take_rows)
  have dup: "duplicated (drop_duplicates T) = replicate (length (mask_cells ?m ?K)) False"
    unfolding duplicated_def keys
    using duplicated_scan_idem [of "[]" ?K] by (simp add: duplicated_def)
  have len: "\<And>c. c \<in> set T \<Longrightarrow> length (cvalues c) = nrows T"
    using assms by (simp add: wf_table_def list_all_iff)
  have cols: "\<forall>c \<in> set (drop_duplicates T). length (cvalues c) = length (mask_cells ?m ?K)"
  proof
    fix c assume "c \<in> set (drop_duplicates T)"
    then obtain c0 where c0: "c0 \<in> set T" and c: "cvalues c = mask_cells ?m (cvalues c0)"
      by (auto simp: drop_duplicates_def take_rows_def)
    have "length (mask_cells ?m (cvalues c0)) = length (mask_cells ?m ?K)"
      by (rule length_mask_cells_cong) (simp_all add: len [OF c0] length_duplicated length_row_keys)
    with c show "length (cvalues c) = length (mask_cells ?m ?K)" by simp
  qed
  show "drop_duplicates (drop_duplicates T) = drop_duplicates T"
    unfolding drop_duplicates_def [of "drop_duplicates T"] dup
    by (rule take_rows_all) (use cols in \<open>simp_all add: list_all_iff\<close>)
  have "rows_of (drop_duplicates T) = mask_cells ?m (rows_of T)"
    unfolding drop_duplicates_def using assms lm by (rule rows_of_take_rows)
  also have "\<dots> = map ((!) (rows_of T)) (filter ((!) ?m) [0..<nrows T])"
    using lm by (simp add: mask_cells_nths length_rows_of del: upt_Suc)
  also have "filter ((!) ?m) [0..<nrows T]
             = filter (\<lambda>i. \<not> (\<exists>j<i. ?K ! j = ?K ! i)) [0..<nrows T]"
  proof (rule filter_cong [OF refl])
    fix i assume "i \<in> set [0..<nrows T]"
    then have i: "i < nrows T" by simp
    then have "?m ! i = (\<not> duplicated T ! i)"
      by (simp add: length_duplicated)
    also have "duplicated T ! i = (\<exists>j<i. ?K ! j = ?K ! i)"
      unfolding duplicated_def using i by (simp add: duplicated_scan_nth length_row_keys)
    finally show "?m ! i = (\<not> (\<exists>j<i. ?K ! j = ?K ! i))" .
  qed
  finally show "rows_of (drop_duplicates T) =
           map ((!) (rows_of T))
             (filter (\<lambda>i. \<not> (\<exists>j<i. row_keys T ! j = row_keys T ! i)) [0..<nrows T])" .
qed

theorem drop_duplicates_first_idempotent_witness:
  "wf_table people \<and>
   drop_duplicates (drop_duplicates people) = drop_duplicates people \<and>
   rows_of (drop_duplicates people) = [[StrV ''Alice'', FloatV 30], [StrV ''Bob'', NaN]]"
proof -
  have r: "rows_of (drop_duplicates people) = [[StrV ''Alice'', FloatV 30], [StrV ''Bob'', NaN]]"
    unfolding dd_people by (simp add: rows_of_def nrows_def upt_conv_Cons)
  from drop_duplicates_first_idempotent [OF wf_people] wf_people r
  show ?thesis by simp
qed

subsection \<open>Export to CSV and reload\<close>
















































text \<open>The sample table as text, read back, and loaded from an upload named \<^verbatim>\<open>staff.csv\<close>.\<close>

lemma staff_text:
  "to_csv (cell_repr silent) staff = ''name,n,ok\<newline>Alice,4,True\<newline>,-15,False\<newline>Bob 2,0,True\<newline>'' \<and>
   pd_read_csv (to_csv (cell_repr silent) staff) = Some (Inr staff) \<and>
   load silent \<lparr>fname = ''staff.csv'', fsize = 48, fcontent = to_csv (cell_repr silent) staff\<rparr>
     (py_lower (snd (splitext ''staff.csv''))) = Some (Inr staff)"
  by code_simp

subsection \<open>The name of the download\<close>

text \<open>
  Claim C8. The claim fails on the code. The new name is the current \<^verbatim>\<open>file.name\<close>
  with every occurrence of the lowered extension replaced. An upload named
  \<^verbatim>\<open>DATA.CSV\<close> is loaded as CSV, since the dispatch lowers the extension, but its name
  does not contain \<^verbatim>\<open>.csv\<close>, so the spreadsheet export is offered under the name
  \<^verbatim>\<open>DATA.CSV\<close>.
\<close>

theorem convert_keeps_uppercase_extension:
  "load L \<lparr>fname = ''DATA.CSV'', fsize = n, fcontent = c\<rparr> (py_lower (snd (splitext ''DATA.CSV'')))
     = Some (read_csv L c) \<and>
   events (convert L (u\<lparr>conversion_type := Excel, convert_btn := True\<rparr>)
             (py_lower (snd (splitext ''DATA.CSV'')))
             \<lparr>events = [], df = T, file_name = ''DATA.CSV'', raised = None\<rparr>)
     = [EvSubheader ''Convert & Download'',
        EvDownload (to_excel L (clock u) T) ''DATA.CSV''
          ''application/vnd.openxmlformats-officedocument.spreadsheetml.sheet'']"
proof -
  have ext: "py_lower (snd (splitext ''DATA.CSV'')) = ''.csv''"
    by code_simp
  have rep: "str_replace ''.csv'' ''.xlsx'' ''DATA.CSV'' = ''DATA.CSV''"
    by code_simp
  show ?thesis
    unfolding ext by (simp add: load_def convert_def emit_def Let_def rep)
qed

text \<open>
  Two more inputs of the same defect: an extension that also occurs inside the name is
  replaced there too, and once the report has been generated \<^verbatim>\<open>file.name\<close> is the
  name of the temporary report file.
\<close>

lemma convert_replaces_every_occurrence:
  "py_lower (snd (splitext ''sales.csv.old.csv'')) = ''.csv'' \<and>
   str_replace ''.csv'' ''.xlsx'' ''sales.csv.old.csv'' = ''sales.xlsx.old.xlsx''"
  by code_simp

lemma convert_after_report_names_temp_file:
  assumes "raised s = None"
  shows "file_name (snd (report L (u\<lparr>generate_report := True, temp_filename := ''/tmp/tmpab12.html''\<rparr>)
                      ([], s)))
     = ''/tmp/tmpab12.html'' \<and>
   str_replace ''.csv'' ''.xlsx'' ''/tmp/tmpab12.html'' = ''/tmp/tmpab12.html''"
proof -
  have "str_replace ''.csv'' ''.xlsx'' ''/tmp/tmpab12.html'' = ''/tmp/tmpab12.html''"
    by code_simp
  then show ?thesis
    using assms by (simp add: report_def stmt_def st_widget_def run_def emit_def Let_def)
qed

subsection \<open>Export reads and does not write\<close>

lemma df_convert: "df (convert L u ext s) = df s"
  by (simp add: convert_def emit_def Let_def split: conversion.split)

lemma file_name_convert: "file_name (convert L u ext s) = file_name s"
  by (simp add: convert_def emit_def Let_def split: conversion.split)

lemma raised_convert: "raised (convert L u ext s) = raised s"
  by (simp add: convert_def emit_def Let_def split: conversion.split)

lemma events_convert:
  "events (convert L u ext s) = events s @ events (convert L u ext (s\<lparr>events := []\<rparr>))"
  by (simp add: convert_def emit_def Let_def split: conversion.split)

lemma convert_events_irrelevant:
  "df s' = df s \<Longrightarrow> file_name s' = file_name s \<Longrightarrow>
   events (convert L u ext (s'\<lparr>events := []\<rparr>)) = events (convert L u ext (s\<lparr>events := []\<rparr>))"
  by (simp add: convert_def emit_def Let_def split: conversion.split)

lemma exports_frame:
  "df (exports L us ext s) = df s \<and> file_name (exports L us ext s) = file_name s \<and>
   raised (exports L us ext s) = raised s \<and>
   events (exports L us ext s)
     = events s @ concat (map (\<lambda>u. events (convert L u ext (s\<lparr>events := []\<rparr>))) us)"
proof (induction us rule: rev_induct)
  case Nil
  then show ?case by (simp add: exports_def)
next
  case (snoc u us)
  have step: "exports L (us @ [u]) ext s = convert L u ext (exports L us ext s)"
    by (simp add: exports_def)
  from snoc have same: "df (exports L us ext s) = df s" "file_name (exports L us ext s) = file_name s"
    by simp_all
  show ?case
    unfolding step df_convert file_name_convert raised_convert
    using snoc events_convert [of L u ext "exports L us ext s"]
      convert_events_irrelevant [OF same, of L u ext]
    by simp
qed

text \<open>
  Claim C9. Any number of exports in succession leave the table and the file name as
  they were, and each export shows what it would have shown as the first one. A CSV
  export is a function of the table, the extension and the file name alone, so two CSV
  exports of the same table give the same bytes under the same name, whatever was
  exported in between. (The bytes of a spreadsheet export also depend on the time of
  writing.)
\<close>

theorem export_is_pure_read:
  "df (exports L us file_ext s) = df s \<and>
   file_name (exports L us file_ext s) = file_name s \<and>
   events (exports L us file_ext s)
     = events s @ concat (map (\<lambda>u. events (convert L u file_ext (s\<lparr>events := []\<rparr>))) us) \<and>
   (\<forall>u. convert_btn u \<and> conversion_type u = CSV \<longrightarrow>
      events (convert L u file_ext (s\<lparr>events := []\<rparr>))
        = [EvSubheader ''Convert & Download'',
           EvDownload (to_csv (cell_repr L) (df s)) (str_replace file_ext ''.csv'' (file_name s))
             ''text/csv''])"
proof -
  have "\<forall>u. convert_btn u \<and> conversion_type u = CSV \<longrightarrow>
      events (convert L u file_ext (s\<lparr>events := []\<rparr>))
        = [EvSubheader ''Convert & Download'',
           EvDownload (to_csv (cell_repr L) (df s)) (str_replace file_ext ''.csv'' (file_name s))
             ''text/csv'']"
    by (simp add: convert_def emit_def Let_def)
  with exports_frame [of L us file_ext s] show ?thesis by simp
qed

theorem export_is_pure_read_witness:
  "convert_btn (idle\<lparr>convert_btn := True\<rparr>) \<and> conversion_type (idle\<lparr>convert_btn := True\<rparr>) = CSV \<and>
   df (exports silent [idle\<lparr>convert_btn := True\<rparr>, idle\<lparr>convert_btn := True\<rparr>] ''.csv'' (start people))
     = people \<and>
   events (exports silent [idle\<lparr>convert_btn := True\<rparr>, idle\<lparr>convert_btn := True\<rparr>] ''.csv'' (start people))
     = [EvSubheader ''Convert & Download'',
        EvDownload (to_csv (cell_repr silent) people) ''people.csv'' ''text/csv'',
        EvSubheader ''Convert & Download'',
        EvDownload (to_csv (cell_repr silent) people) ''people.csv'' ''text/csv'']"
proof -
  let ?u = "idle\<lparr>convert_btn := True\<rparr>"
  have h: "convert_btn ?u \<and> conversion_type ?u = CSV"
    by (simp add: idle_def)
  have n: "str_replace ''.csv'' ''.csv'' ''people.csv'' = ''people.csv''"
    by code_simp
  from export_is_pure_read [of silent "[?u, ?u]" "''.csv''" "start people"] h
  show ?thesis
    by (simp add: start_def n)
qed

subsection \<open>What the cleaning steps leave alone\<close>

lemma shape_lowercase: "lowercase T = Inr T' \<Longrightarrow> shape T' = shape T"
  by (auto simp: lowercase_def shape_def split: if_splits)

lemma nth_lowercase:
  "lowercase T = Inr T' \<Longrightarrow> i < length T \<Longrightarrow>
   (if cdtype (T ! i) = DObject then T' ! i = (T ! i)\<lparr>cvalues := map str_lower (cvalues (T ! i))\<rparr>
    else T' ! i = T ! i)"
  by (auto simp: lowercase_def is_object_def split: if_splits)

lemma shape_remove_special: "shape (remove_special T) = shape T"
  by (simp add: remove_special_def shape_def)

lemma nth_remove_special:
  "i < length T \<Longrightarrow>
   (if cdtype (T ! i) = DObject
    then remove_special T ! i = (T ! i)\<lparr>cvalues := map regex_replace (cvalues (T ! i))\<rparr>
    else remove_special T ! i = T ! i)"
  by (simp add: remove_special_def is_object_def)

lemma length_fillna: "length (fillna m xs) = length xs"
  by (simp add: fillna_def split: option.split)

lemma nth_fillna: "r < length xs \<Longrightarrow> xs ! r \<noteq> NaN \<Longrightarrow> fillna m xs ! r = xs ! r"
  by (simp add: fillna_def split: option.split)

lemma shape_fillna_mean: "shape (fillna_mean T) = shape T"
  by (simp add: fillna_mean_def shape_def length_fillna)

lemma nth_fillna_mean:
  "i < length T \<Longrightarrow>
   (if is_number (cdtype (T ! i))
    then fillna_mean T ! i = (T ! i)\<lparr>cvalues := fillna (mean (cvalues (T ! i))) (cvalues (T ! i))\<rparr>
    else fillna_mean T ! i = T ! i)"
  by (simp add: fillna_mean_def)

lemma df_convert_lowercase:
  "df (convert_lowercase s) = (case lowercase (df s) of Inl e \<Rightarrow> df s | Inr T \<Rightarrow> T)"
  by (simp add: convert_lowercase_def emit_def split: sum.split)

lemma df_fill_missing:
  "df (fill_missing s) = df s \<or> df (fill_missing s) = fillna_mean (df s)"
  by (simp add: fill_missing_def emit_def Let_def)

lemma df_remove_special_characters:
  "df (remove_special_characters s) = remove_special (df s)"
  by (simp add: remove_special_characters_def emit_def)

text \<open>
  Claim C10. Lowercasing, removing special characters and filling missing values keep
  the labels, the types and the length of every column. The first two leave every
  column that is not an \<open>object\<close> column as it is and rewrite the cells of the
  \<open>object\<close> columns in place, cell by cell; filling leaves every column that is not
  numeric as it is and, in every column, every cell that is not missing.
\<close>

theorem cleaning_touches_only_its_columns:
  "shape (df (convert_lowercase s)) = shape (df s) \<and>
   (\<forall>i<length (df s). cdtype (df s ! i) \<noteq> DObject \<longrightarrow> df (convert_lowercase s) ! i = df s ! i) \<and>
   (\<forall>i<length (df s). cdtype (df s ! i) = DObject \<longrightarrow> raised (convert_lowercase s) = None \<longrightarrow>
      cvalues (df (convert_lowercase s) ! i) = map str_lower (cvalues (df s ! i))) \<and>
   shape (df (remove_special_characters s)) = shape (df s) \<and>
   (\<forall>i<length (df s). cdtype (df s ! i) \<noteq> DObject \<longrightarrow>
      df (remove_special_characters s) ! i = df s ! i) \<and>
   (\<forall>i<length (df s). cdtype (df s ! i) = DObject \<longrightarrow>
      cvalues (df (remove_special_characters s) ! i) = map regex_replace (cvalues (df s ! i))) \<and>
   shape (df (fill_missing s)) = shape (df s) \<and>
   (\<forall>i<length (df s). cdtype (df s ! i) \<noteq> DInt64 \<and> cdtype (df s ! i) \<noteq> DFloat64 \<longrightarrow>
      df (fill_missing s) ! i = df s ! i) \<and>
   (\<forall>i<length (df s). \<forall>r<length (cvalues (df s ! i)). cvalues (df s ! i) ! r \<noteq> NaN \<longrightarrow>
      cvalues (df (fill_missing s) ! i) ! r = cvalues (df s ! i) ! r)"
proof -
  have l1: "shape (df (convert_lowercase s)) = shape (df s)"
    by (simp add: df_convert_lowercase shape_lowercase split: sum.split)
  have l2: "\<forall>i<length (df s). cdtype (df s ! i) \<noteq> DObject \<longrightarrow> df (convert_lowercase s) ! i = df s ! i"
    using nth_lowercase [of "df s"]
    by (auto simp: df_convert_lowercase split: sum.split)
  have l3: "\<forall>i<length (df s). cdtype (df s ! i) = DObject \<longrightarrow> raised (convert_lowercase s) = None \<longrightarrow>
      cvalues (df (convert_lowercase s) ! i) = map str_lower (cvalues (df s ! i))"
  proof (intro allI impI)
    fix i assume i: "i < length (df s)" and o: "cdtype (df s ! i) = DObject"
      and ok: "raised (convert_lowercase s) = None"
    show "cvalues (df (convert_lowercase s) ! i) = map str_lower (cvalues (df s ! i))"
    proof (cases "lowercase (df s)")
      case (Inl e)
      with ok show ?thesis
        by (cases "raised s") (simp_all add: convert_lowercase_def)
    next
      case (Inr T')
      from nth_lowercase [OF Inr i] o Inr show ?thesis
        by (simp add: df_convert_lowercase)
    qed
  qed
  have r1: "shape (df (remove_special_characters s)) = shape (df s)"
    by (simp add: df_remove_special_characters shape_remove_special)
  have r2: "\<forall>i<length (df s). cdtype (df s ! i) \<noteq> DObject \<longrightarrow>
      df (remove_special_characters s) ! i = df s ! i"
    using nth_remove_special [of _ "df s"] by (simp add: df_remove_special_characters)
  have r3: "\<forall>i<length (df s). cdtype (df s ! i) = DObject \<longrightarrow>
      cvalues (df (remove_special_characters s) ! i) = map regex_replace (cvalues (df s ! i))"
    using nth_remove_special [of _ "df s"] by (simp add: df_remove_special_characters)
  have f1: "shape (df (fill_missing s)) = shape (df s)"
    using df_fill_missing [of s] by (auto simp: shape_fillna_mean)
  have f2: "\<forall>i<length (df s). cdtype (df s ! i) \<noteq> DInt64 \<and> cdtype (df s ! i) \<noteq> DFloat64 \<longrightarrow>
      df (fill_missing s) ! i = df s ! i"
    using df_fill_missing [of s] nth_fillna_mean [of _ "df s"] by (auto simp: is_number_def)
  have f3: "\<forall>i<length (df s). \<forall>r<length (cvalues (df s ! i)). cvalues (df s ! i) ! r \<noteq> NaN \<longrightarrow>
      cvalues (df (fill_missing s) ! i) ! r = cvalues (df s ! i) ! r"
  proof (intro allI impI)
    fix i r assume i: "i < length (df s)" and r: "r < length (cvalues (df s ! i))"
      and v: "cvalues (df s ! i) ! r \<noteq> NaN"
    from df_fill_missing [of s]
    show "cvalues (df (fill_missing s) ! i) ! r = cvalues (df s ! i) ! r"
    proof
      assume "df (fill_missing s) = df s"
      then show ?thesis by simp
    next
      assume "df (fill_missing s) = fillna_mean (df s)"
      with nth_fillna_mean [OF i] nth_fillna [OF r v] show ?thesis
        by (auto split: if_splits)
    qed
  qed
  from l1 l2 l3 r1 r2 r3 f1 f2 f3 show ?thesis by (intro conjI)
qed

theorem cleaning_touches_only_its_columns_witness:
  "df (fill_missing (start people)) ! 0 = people ! 0 \<and>
   df (convert_lowercase (start people)) ! 1 = people ! 1 \<and>
   df (remove_special_characters (start people)) ! 1 = people ! 1 \<and>
   shape (df (fill_missing (start people))) = shape people"
proof -
  have d: "df (start people) = people"
    by (simp add: start_def)
  have l: "length people = 2" "cdtype (people ! 0) = DObject" "cdtype (people ! 1) = DFloat64"
    by (simp_all add: people_def)
  from cleaning_touches_only_its_columns [of "start people"]
  show ?thesis
    unfolding d using l by simp
qed

end
